(* ===== verification/Prelude.thy ===== *)
theory Prelude
  imports Main "HOL-Library.AList"
begin

text \<open>
  Shared vocabulary of the notification-service development: Python values as they
  cross the library boundary (\<open>pyval\<close>, dictionaries as association lists with Python's
  insertion-order semantics), observable effects of a run (\<open>'c effect\<close>: a network
  call or a backoff sleep, in program order), and the exponential backoff
  \<open>2 ** attempt\<close> that both delivery paths use.  The lemmas here are the ones every
  component proof shares; they are collected in \<open>effect_simps\<close>.
\<close>

named_theorems effect_simps "rewrite rules for traces of effects"

section \<open>Python values\<close>

text \<open>
  The payloads, request parameters and response bodies of the source are Python values
  of type \<open>Any\<close>; the constructors cover what the source builds and what a JSON body
  decodes to (floats are not used by the source and are left out).
\<close>

datatype pyval =
    PyNone
  | PyBool bool
  | PyInt int
  | PyStr string
  | PyList "pyval list"
  | PyDict "(string \<times> pyval) list"

type_synonym pydict = "(string \<times> pyval) list"

text \<open>
  A dictionary display \<open>{k1: v1, k2: v2}\<close> evaluates its entries left to right into an
  empty dictionary; an assignment to a present key keeps the key's position and replaces
  its value, a new key is appended (\<open>AList.update\<close> does exactly this).
\<close>

definition py_dict :: "(string \<times> pyval) list \<Rightarrow> pydict" where
  "py_dict kvs = foldl (\<lambda>d (k, v). AList.update k v d) [] kvs"

section \<open>Effects and traces\<close>

text \<open>
  A trace lists what a call did, in order: \<open>Io c\<close> is one network command \<open>c\<close> handed
  to the transport library, \<open>Sleep t\<close> one \<open>await sleep(t)\<close>.
\<close>

datatype 'c effect = Io 'c | Sleep nat

primrec sleeps :: "'c effect list \<Rightarrow> nat list" where
  "sleeps [] = []"
| "sleeps (e # es) = (case e of Sleep t \<Rightarrow> t # sleeps es | Io _ \<Rightarrow> sleeps es)"

primrec io_calls :: "'c effect list \<Rightarrow> 'c list" where
  "io_calls [] = []"
| "io_calls (e # es) = (case e of Io c \<Rightarrow> c # io_calls es | Sleep _ \<Rightarrow> io_calls es)"

text \<open>The backoff before the next attempt after attempt \<open>i\<close> (0-based): \<open>2 ** i\<close>.\<close>

definition backoff :: "nat \<Rightarrow> nat" where
  "backoff i = 2 ^ i"

text \<open>\<open>io_ext tr tr'\<close>: \<open>tr'\<close> extends \<open>tr\<close> by network commands only (no sleep).\<close>

definition io_ext :: "'c effect list \<Rightarrow> 'c effect list \<Rightarrow> bool" where
  "io_ext tr tr' = (\<exists>cs. tr' = tr @ map Io cs)"

section \<open>Shared lemmas\<close>

lemma sleeps_append [simp, effect_simps]: "sleeps (xs @ ys) = sleeps xs @ sleeps ys"
  by (induction xs) (auto split: effect.splits)

lemma io_calls_append [simp, effect_simps]: "io_calls (xs @ ys) = io_calls xs @ io_calls ys"
  by (induction xs) (auto split: effect.splits)

lemma sleeps_Io [simp, effect_simps]: "sleeps (Io c # es) = sleeps es"
  and sleeps_Sleep [simp, effect_simps]: "sleeps (Sleep t # es) = t # sleeps es"
  and io_calls_Io [simp, effect_simps]: "io_calls (Io c # es) = c # io_calls es"
  and io_calls_Sleep [simp, effect_simps]: "io_calls (Sleep t # es) = io_calls es"
  by simp_all

lemma sleeps_concat [effect_simps]: "sleeps (concat xss) = concat (map sleeps xss)"
  by (induction xss) simp_all

lemma io_calls_concat [effect_simps]: "io_calls (concat xss) = concat (map io_calls xss)"
  by (induction xss) simp_all

lemma backoff_pos [simp]: "0 < backoff i"
  by (simp add: backoff_def)

lemma backoff_Suc: "backoff (Suc i) = 2 * backoff i"
  by (simp add: backoff_def)

lemma backoff_strict_mono: "i < j \<Longrightarrow> backoff i < backoff j"
  by (simp add: backoff_def)

text \<open>Waiting after attempts \<open>0 .. k-1\<close> takes \<open>2 ^ k - 1\<close> time units in all.\<close>

lemma sum_backoff: "sum_list (map backoff [0..<k]) = 2 ^ k - 1"
proof (induction k)
  case 0
  then show ?case by simp
next
  case (Suc k)
  have "(1::nat) \<le> 2 ^ k" by simp
  with Suc show ?case by (simp add: backoff_def)
qed

lemma map_of_py_dict_Cons:
  "map_of (foldl (\<lambda>d (k, v). AList.update k v d) d0 kvs) =
   foldl (\<lambda>m (k, v). m(k \<mapsto> v)) (map_of d0) kvs"
  by (induction kvs arbitrary: d0) (auto simp: update_conv')

lemma map_of_py_dict: "map_of (py_dict kvs) = foldl (\<lambda>m (k, v). m(k \<mapsto> v)) Map.empty kvs"
  by (simp add: py_dict_def map_of_py_dict_Cons)

lemma filter_less_upt: "filter (\<lambda>i. i < k) [a..<j] = [a..<min k j]"
  by (induction j) (auto simp: min_def le_Suc_eq)

lemma concat_map_singleton: "concat (map (\<lambda>i. [x]) xs) = replicate (length xs) x"
  by (induction xs) simp_all

lemma concat_map_if_all:
  "\<forall>i\<in>set xs. P i \<Longrightarrow> concat (map (\<lambda>i. if P i then [f i] else []) xs) = map f xs"
  by (induction xs) simp_all

lemma concat_map_if_none:
  "\<forall>i\<in>set xs. \<not> P i \<Longrightarrow> concat (map (\<lambda>i. if P i then [f i] else []) xs) = []"
  by (induction xs) simp_all

lemma concat_map_if_filter:
  "concat (map (\<lambda>i. if P i then [f i] else []) xs) = map f (filter P xs)"
  by (induction xs) simp_all

text \<open>Distinct attempt indices below \<open>k\<close> never wait longer than all \<open>k\<close> backoffs.\<close>

lemma sum_backoff_subset:
  assumes "distinct xs" "set xs \<subseteq> {..<k}"
  shows "sum_list (map backoff xs) \<le> 2 ^ k - 1"
proof -
  have "sum_list (map backoff xs) = sum backoff (set xs)"
    using assms(1) by (simp add: sum_list_distinct_conv_sum_set)
  also have "\<dots> \<le> sum backoff (set [0..<k])"
    using assms(2) by (intro sum_mono2) auto
  also have "\<dots> = 2 ^ k - 1"
    by (simp only: sum_set_upt_conv_sum_list_nat sum_backoff)
  finally show ?thesis .
qed

lemma io_ext_refl [simp, effect_simps]: "io_ext tr tr"
  by (auto simp: io_ext_def intro: exI [of _ "[]"])

lemma io_ext_Io [simp, effect_simps]: "io_ext tr (tr @ [Io c])"
  by (auto simp: io_ext_def intro: exI [of _ "[c]"])

lemma io_ext_trans: "io_ext a b \<Longrightarrow> io_ext b c \<Longrightarrow> io_ext a c"
  by (auto simp: io_ext_def) (metis append.assoc map_append)

lemma io_ext_sleeps: "io_ext tr tr' \<Longrightarrow> sleeps tr' = sleeps tr"
proof -
  have "sleeps (map Io cs) = []" for cs :: "'c list" by (induction cs) simp_all
  then show "io_ext tr tr' \<Longrightarrow> sleeps tr' = sleeps tr" by (auto simp: io_ext_def)
qed

lemma io_calls_map_Io [simp, effect_simps]: "io_calls (map Io cs) = cs"
  by (induction cs) simp_all

end
