(* ===== verification/Schemas.thy ===== *)
theory Schemas
  imports Prelude
begin

text \<open>
  The data model of \<open>src/notifications/core/schemas.py\<close>: the outcome record
  \<open>BaseResponse\<close> that every send returns, and the two configuration models
  \<open>SessionPool\<close> (the HTTP connection-pool settings) and \<open>GmailEnvironments\<close> (the
  SMTP credentials).  Pydantic models become records; their defaults become a constant.
\<close>

section \<open>BaseResponse\<close>

record base_response =
  status_code :: "int option"
  details :: pyval
  execute_status :: bool

text \<open>\<open>BaseResponse()\<close>: every field at its declared default.\<close>

definition BaseResponse :: base_response where
  "BaseResponse = \<lparr>status_code = None, details = PyNone, execute_status = False\<rparr>"

text \<open>
  The outcome invariant of the spec (section 3): a delivery is reported as executed only
  together with a status code in the success range \<open>ok\<close> of the transport.
\<close>

definition response_inv :: "(int \<Rightarrow> bool) \<Rightarrow> base_response \<Rightarrow> bool" where
  "response_inv ok r =
     (case status_code r of None \<Rightarrow> \<not> execute_status r | Some s \<Rightarrow> (execute_status r \<longrightarrow> ok s))"

lemma response_inv_BaseResponse [simp]: "response_inv ok BaseResponse"
  by (simp add: response_inv_def BaseResponse_def)

lemma response_inv_mono: "response_inv P r \<Longrightarrow> (\<And>s. P s \<Longrightarrow> Q s) \<Longrightarrow> response_inv Q r"
  by (auto simp: response_inv_def split: option.splits)

section \<open>Configuration models\<close>

record session_pool =
  limit :: int
  limit_per_host :: int
  keepalive_timeout :: int
  ssl :: bool

record gmail_environments =
  gmail_address_env :: string
  gmail_app_password_env :: string

end
