(* ===== verification/Retry.thy ===== *)
theory Retry
  imports Schemas
begin

text \<open>
  The retry dispatcher \<open>send_with_retries_mechanism\<close> of
  \<open>src/notifications/core/utils.py\<close>: up to \<open>max_retries\<close> POST requests through a
  shared aiohttp \<open>ClientSession\<close>, classified by status, with backoff \<open>2 ** attempt\<close>.
  The network is an oracle \<open>http_env\<close>: for the request parameters and the 0-based index
  of the request within this call it gives either a response (status and decoded JSON
  body) or the exception the \<open>async with post(...)\<close>/\<open>response.json()\<close> block raised
  (its \<open>status\<close> attribute, if it has one, and \<open>str(error)\<close>).
\<close>

section \<open>The transport as seen by the dispatcher\<close>

datatype http_outcome =
    Response int pyval
  | Raised "int option" string

type_synonym http_env = "pydict \<Rightarrow> nat \<Rightarrow> http_outcome"

type_synonym http_trace = "pydict effect list"

text \<open>
  The part of aiohttp's \<open>ClientSession\<close> the source relies on: the connector settings it
  was built with and whether \<open>close()\<close> has been called.  A request on a closed session
  raises \<open>RuntimeError('Session is closed')\<close>, which has no \<open>status\<close> attribute.
\<close>

record client_session =
  connector :: session_pool
  closed :: bool

definition session_post :: "client_session \<Rightarrow> http_env \<Rightarrow> http_env" where
  "session_post pool env =
     (if closed pool then (\<lambda>_ _. Raised None ''Session is closed'') else env)"

text \<open>aiohttp's \<open>ClientResponse.ok\<close> is \<open>status < 400\<close>.\<close>

definition response_ok :: "int \<Rightarrow> bool" where
  "response_ok st = (st < 400)"

definition is_client_error :: "int \<Rightarrow> bool" where
  "is_client_error st = (400 \<le> st \<and> st < 500)"

section \<open>The dispatcher\<close>

text \<open>\<open>request_params = {"url": url, payload_marker: payload}\<close>\<close>

definition request_params :: "string \<Rightarrow> string \<Rightarrow> pydict \<Rightarrow> pydict" where
  "request_params url payload_marker payload =
     py_dict [(''url'', PyStr url), (payload_marker, PyDict payload)]"

text \<open>
  The \<open>for attempt in range(max_retries)\<close> loop, one call per iteration; the result
  object is threaded through and overwritten field by field as the source does.
\<close>

function retry_loop ::
  "http_env \<Rightarrow> pydict \<Rightarrow> int \<Rightarrow> nat \<Rightarrow> base_response \<Rightarrow> http_trace \<Rightarrow> base_response \<times> http_trace"
where
  "retry_loop env req max_retries attempt result tr =
     (if int attempt < max_retries then
        (case env req attempt of
           Response st data \<Rightarrow>
             (let result' = result\<lparr>status_code := Some st, details := data\<rparr>;
                  tr' = tr @ [Io req]
              in if response_ok st then (result'\<lparr>execute_status := True\<rparr>, tr')
                 else if is_client_error st then (result', tr')
                 else retry_loop env req max_retries (Suc attempt) result'
                        (tr' @ [Sleep (backoff attempt)]))
         | Raised st_attr msg \<Rightarrow>
             (let code = (case st_attr of None \<Rightarrow> 500 | Some c \<Rightarrow> c);
                  result' = result\<lparr>status_code := Some code, details := PyStr msg\<rparr>;
                  tr' = tr @ [Io req]
              in retry_loop env req max_retries (Suc attempt) result'
                   (if int attempt < max_retries - 1 \<and> \<not> is_client_error code
                    then tr' @ [Sleep (backoff attempt)] else tr')))
      else (result, tr))"
  by pat_completeness auto
termination
  by (relation "measure (\<lambda>(env, req, n, a, r, tr). nat (n - int a))") auto

declare retry_loop.simps [simp del]

definition send_with_retries_mechanism ::
  "string \<Rightarrow> string \<Rightarrow> pydict \<Rightarrow> int \<Rightarrow> client_session \<Rightarrow> http_env \<Rightarrow> base_response \<times> http_trace"
where
  "send_with_retries_mechanism url payload_marker payload max_retries session_pool env =
     retry_loop (session_post session_pool env) (request_params url payload_marker payload)
       max_retries 0 BaseResponse []"

section \<open>Loop-free closed form of the dispatcher\<close>

text \<open>
  What the code's loop computes, written without the loop.  This is a closed form of
  \<open>utils.py\<close>, not the spec's contract of section 4.1: it keeps the code's two
  departures from that contract (a sleep after the last server-error response, and
  exceptions with a 4xx status that do not stop the loop).  An attempt's outcome is
  \<^emph>\<open>final\<close> when it is a response that is \<open>ok\<close> or a client error; the
  dispatcher makes attempts \<open>0, 1, ..\<close> up to the first final one, at most
  \<open>max_retries\<close> of them; each attempt writes its outcome into the result
  (\<open>record_outcome\<close>) and is followed by the effects \<open>attempt_effects\<close>: the request,
  then a sleep of \<open>backoff i\<close> if the code backs off after it (\<open>backs_off\<close>).
\<close>

definition raised_code :: "int option \<Rightarrow> int" where
  "raised_code st_attr = (case st_attr of None \<Rightarrow> 500 | Some c \<Rightarrow> c)"

definition is_final :: "http_outcome \<Rightarrow> bool" where
  "is_final out =
     (case out of Response st _ \<Rightarrow> response_ok st \<or> is_client_error st | Raised _ _ \<Rightarrow> False)"

definition last_attempt :: "http_env \<Rightarrow> pydict \<Rightarrow> int \<Rightarrow> nat \<Rightarrow> nat" where
  "last_attempt env req n a =
     (case List.find (\<lambda>i. is_final (env req i)) [a..<nat n] of Some i \<Rightarrow> i | None \<Rightarrow> nat n - 1)"

definition record_outcome :: "base_response \<Rightarrow> http_outcome \<Rightarrow> base_response" where
  "record_outcome r out =
     (case out of
        Response st data \<Rightarrow> r\<lparr>status_code := Some st, details := data,
                               execute_status := (response_ok st \<or> execute_status r)\<rparr>
      | Raised st_attr msg \<Rightarrow> r\<lparr>status_code := Some (raised_code st_attr), details := PyStr msg\<rparr>)"

definition backs_off :: "int \<Rightarrow> nat \<Rightarrow> http_outcome \<Rightarrow> bool" where
  "backs_off n i out =
     (case out of
        Response st _ \<Rightarrow> \<not> response_ok st \<and> \<not> is_client_error st
      | Raised st_attr _ \<Rightarrow> int i < n - 1 \<and> \<not> is_client_error (raised_code st_attr))"

definition attempt_effects :: "int \<Rightarrow> pydict \<Rightarrow> nat \<Rightarrow> http_outcome \<Rightarrow> http_trace" where
  "attempt_effects n req i out = Io req # (if backs_off n i out then [Sleep (backoff i)] else [])"

definition dispatch_spec :: "http_env \<Rightarrow> pydict \<Rightarrow> int \<Rightarrow> base_response \<times> http_trace" where
  "dispatch_spec env req n =
     (if n \<le> 0 then (BaseResponse, [])
      else let k = Suc (last_attempt env req n 0)
           in (foldl (\<lambda>r i. record_outcome r (env req i)) BaseResponse [0..<k],
               concat (map (\<lambda>i. attempt_effects n req i (env req i)) [0..<k])))"

section \<open>The loop against the reference\<close>

lemma last_attempt_ge: "int a < n \<Longrightarrow> a \<le> last_attempt env req n a"
  by (auto simp: last_attempt_def find_Some_iff split: option.split)

lemma last_attempt_less: "int a < n \<Longrightarrow> last_attempt env req n a < nat n"
  by (auto simp: last_attempt_def find_Some_iff split: option.split)

lemma last_attempt_final: "int a < n \<Longrightarrow> is_final (env req a) \<Longrightarrow> last_attempt env req n a = a"
  by (simp add: last_attempt_def upt_conv_Cons)

lemma last_attempt_step:
  "int a < n \<Longrightarrow> \<not> is_final (env req a) \<Longrightarrow>
   last_attempt env req n a = (if int (Suc a) < n then last_attempt env req n (Suc a) else a)"
  by (auto simp: last_attempt_def upt_conv_Cons)

lemma retry_loop_final:
  "int a < n \<Longrightarrow> is_final (env req a) \<Longrightarrow>
   retry_loop env req n a r tr = (record_outcome r (env req a), tr @ attempt_effects n req a (env req a))"
  by (auto simp: retry_loop.simps [of env req n a] record_outcome_def attempt_effects_def
      backs_off_def is_final_def Let_def split: http_outcome.splits)

lemma retry_loop_step:
  "int a < n \<Longrightarrow> \<not> is_final (env req a) \<Longrightarrow>
   retry_loop env req n a r tr =
   retry_loop env req n (Suc a) (record_outcome r (env req a)) (tr @ attempt_effects n req a (env req a))"
  by (cases "env req a")
    (auto simp: retry_loop.simps [of env req n a] record_outcome_def attempt_effects_def
      backs_off_def is_final_def raised_code_def Let_def)

lemma retry_loop_exit: "\<not> int a < n \<Longrightarrow> retry_loop env req n a r tr = (r, tr)"
  by (simp add: retry_loop.simps)

lemma retry_loop_closed:
  "int a < n \<Longrightarrow> retry_loop env req n a r tr =
     (foldl (\<lambda>r i. record_outcome r (env req i)) r [a..<Suc (last_attempt env req n a)],
      tr @ concat (map (\<lambda>i. attempt_effects n req i (env req i)) [a..<Suc (last_attempt env req n a)]))"
proof (induction "nat n - a" arbitrary: a r tr)
  case 0
  then show ?case by simp
next
  case (Suc k)
  show ?case
  proof (cases "is_final (env req a)")
    case True
    with Suc.prems show ?thesis by (simp add: retry_loop_final last_attempt_final)
  next
    case False
    show ?thesis
    proof (cases "int (Suc a) < n")
      case True
      have k: "k = nat n - Suc a" using Suc.hyps(2) by simp
      have ge: "Suc a \<le> last_attempt env req n (Suc a)" using True by (rule last_attempt_ge)
      show ?thesis
        using Suc.hyps(1) [OF k True] Suc.prems False True ge
        by (simp add: retry_loop_step last_attempt_step upt_conv_Cons)
    next
      case False
      with Suc.prems \<open>\<not> is_final (env req a)\<close> show ?thesis
        by (simp add: retry_loop_step last_attempt_step retry_loop_exit)
    qed
  qed
qed

lemma retry_loop_from_start: "retry_loop env req n 0 BaseResponse [] = dispatch_spec env req n"
  by (simp add: dispatch_spec_def retry_loop_closed retry_loop_exit Let_def)

lemma before_last_attempt:
  assumes "a \<le> i" "i < last_attempt env req n a"
  shows "\<not> is_final (env req i)"
proof (cases "List.find (\<lambda>i. is_final (env req i)) [a..<nat n]")
  case None
  with assms show ?thesis by (auto simp: last_attempt_def find_None_iff)
next
  case (Some x)
  then obtain m where m: "m < length [a..<nat n]" "x = [a..<nat n] ! m"
    "\<forall>j<m. \<not> is_final (env req ([a..<nat n] ! j))"
    by (auto simp: find_Some_iff)
  with Some assms have "i - a < m" "x = a + m" by (auto simp: last_attempt_def)
  with m assms show ?thesis by (metis le_add_diff_inverse nth_upt length_upt less_diff_conv add.commute order.strict_trans)
qed

lemma record_outcome_overwrite:
  "\<not> is_final o1 \<Longrightarrow> record_outcome (record_outcome r o1) o2 = record_outcome r o2"
  by (cases o1; cases o2) (auto simp: record_outcome_def is_final_def)

lemma foldl_record_outcome:
  "\<forall>i\<in>set xs. \<not> is_final (f i) \<Longrightarrow>
   foldl (\<lambda>r i. record_outcome r (f i)) r (xs @ [x]) = record_outcome r (f x)"
  by (induction xs arbitrary: r) (simp_all add: record_outcome_overwrite)

lemma dispatch_spec_result:
  assumes "0 < n"
  shows "fst (dispatch_spec env req n) = record_outcome BaseResponse (env req (last_attempt env req n 0))"
proof -
  let ?j = "last_attempt env req n 0"
  have "\<forall>i\<in>set [0..<?j]. \<not> is_final (env req i)"
    using before_last_attempt [of 0 _ env req n] by auto
  then have "foldl (\<lambda>r i. record_outcome r (env req i)) BaseResponse ([0..<?j] @ [?j]) =
             record_outcome BaseResponse (env req ?j)"
    by (rule foldl_record_outcome)
  with assms show ?thesis by (simp add: dispatch_spec_def Let_def del: foldl_append)
qed

lemma io_calls_attempt_effects [simp]: "io_calls (attempt_effects n req i out) = [req]"
  by (simp add: attempt_effects_def)

lemma sleeps_attempt_effects [simp]:
  "sleeps (attempt_effects n req i out) = (if backs_off n i out then [backoff i] else [])"
  by (simp add: attempt_effects_def)

lemma dispatch_spec_io_calls:
  "io_calls (snd (dispatch_spec env req n)) =
   replicate (if n \<le> 0 then 0 else Suc (last_attempt env req n 0)) req"
  by (simp add: dispatch_spec_def Let_def io_calls_concat o_def concat_map_singleton
      map_replicate_const replicate_append_same)

lemma dispatch_spec_sleeps:
  "sleeps (snd (dispatch_spec env req n)) =
   (if n \<le> 0 then []
    else concat (map (\<lambda>i. if backs_off n i (env req i) then [backoff i] else [])
                   [0..<Suc (last_attempt env req n 0)]))"
  by (simp add: dispatch_spec_def Let_def sleeps_concat o_def)

lemma last_attempt_all_transient:
  "0 < n \<Longrightarrow> \<forall>i<nat n. \<not> is_final (env req i) \<Longrightarrow> last_attempt env req n 0 = nat n - 1"
proof -
  assume "0 < n" "\<forall>i<nat n. \<not> is_final (env req i)"
  then have "List.find (\<lambda>i. is_final (env req i)) [0..<nat n] = None"
    by (auto simp: find_None_iff)
  then show ?thesis by (simp add: last_attempt_def)
qed

lemma last_attempt_first_final:
  assumes "k < nat n" "\<forall>i<k. \<not> is_final (env req i)" "is_final (env req k)"
  shows "last_attempt env req n 0 = k"
proof -
  have "List.find (\<lambda>i. is_final (env req i)) [0..<nat n] = Some k"
    using assms by (auto simp: find_Some_iff)
  then show ?thesis by (simp add: last_attempt_def)
qed

lemma dispatch_spec_all_raised:
  assumes "0 < n"
    and "\<forall>i<nat n. \<exists>sa msg. env req i = Raised sa msg \<and> \<not> is_client_error (raised_code sa)"
  shows "length (io_calls (snd (dispatch_spec env req n))) = nat n
         \<and> sleeps (snd (dispatch_spec env req n)) = map backoff [0..<nat n - 1]
         \<and> fst (dispatch_spec env req n) = record_outcome BaseResponse (env req (nat n - 1))"
proof -
  have nf: "\<forall>i<nat n. \<not> is_final (env req i)"
    using assms(2) by (fastforce simp: is_final_def)
  then have last: "last_attempt env req n 0 = nat n - 1"
    using assms(1) by (simp add: last_attempt_all_transient)
  have bo: "\<forall>i<nat n. backs_off n i (env req i) = (i < nat n - 1)"
    using assms by (fastforce simp: backs_off_def)
  have k: "Suc (nat n - 1) = nat n" using assms(1) by simp
  have "filter (\<lambda>i. backs_off n i (env req i)) [0..<nat n] = filter (\<lambda>i. i < nat n - 1) [0..<nat n]"
    using bo by (intro filter_cong) auto
  also have "\<dots> = [0..<nat n - 1]"
    using assms(1) by (simp add: filter_less_upt)
  finally show ?thesis using assms(1)
    by (simp add: dispatch_spec_io_calls dispatch_spec_sleeps dispatch_spec_result last k
        concat_map_if_filter)
qed

lemma dispatch_spec_backoff_schedule:
  "\<exists>xs. sorted_wrt (<) xs \<and> set xs \<subseteq> {..<nat n} \<and> sleeps (snd (dispatch_spec env req n)) = map backoff xs"
proof (cases "0 < n")
  case True
  let ?xs = "filter (\<lambda>i. backs_off n i (env req i)) [0..<Suc (last_attempt env req n 0)]"
  have "set ?xs \<subseteq> {..<nat n}"
    using last_attempt_less [of 0 n env req] True by auto
  moreover have "sorted_wrt (<) ?xs" by (rule sorted_wrt_filter, rule sorted_wrt_upt)
  moreover have "sleeps (snd (dispatch_spec env req n)) = map backoff ?xs"
    using True by (simp add: dispatch_spec_sleeps concat_map_if_filter)
  ultimately show ?thesis by blast
next
  case False
  then show ?thesis by (simp add: dispatch_spec_def)
qed

lemma dispatch_spec_result_inv: "response_inv response_ok (fst (dispatch_spec env req n))"
proof (cases "0 < n")
  case True
  then show ?thesis
    by (simp add: dispatch_spec_result response_inv_def record_outcome_def BaseResponse_def
        split: http_outcome.split)
next
  case False
  then show ?thesis by (simp add: dispatch_spec_def)
qed

text \<open>
  C1: The dispatcher's loop equals its loop-free closed form: for every URL, payload,
  budget, pool and network behaviour, \<open>send_with_retries_mechanism\<close> returns exactly
  the result and the trace of effects that \<open>dispatch_spec\<close> prescribes.
\<close>

theorem dispatch_refines_spec:
  "send_with_retries_mechanism url payload_marker payload max_retries session_pool env =
   dispatch_spec (session_post session_pool env) (request_params url payload_marker payload) max_retries"
  unfolding send_with_retries_mechanism_def retry_loop_from_start
    by simp

lemma session_post_open [simp]: "\<not> closed pool \<Longrightarrow> session_post pool env = env"
  by (simp add: session_post_def)

text \<open>
  C2: A successful response short-circuits the dispatcher: if attempts \<open>0..k-1\<close> all get
  non-final outcomes (server-error responses or exceptions) and attempt \<open>k < max_retries\<close>
  gets an \<open>ok\<close> response, exactly \<open>k + 1\<close> requests are made and the result carries
  that response's status and body with \<open>execute_status\<close> set.
\<close>

theorem dispatch_success_short_circuit:
  assumes "\<not> closed pool" and "int k < n"
    and "\<forall>i<k. \<not> is_final (env (request_params url m p) i)"
    and "env (request_params url m p) k = Response st data" and "response_ok st"
  shows "fst (send_with_retries_mechanism url m p n pool env) =
           BaseResponse\<lparr>status_code := Some st, details := data, execute_status := True\<rparr>
         \<and> length (io_calls (snd (send_with_retries_mechanism url m p n pool env))) = Suc k"
proof -
  have last: "last_attempt env (request_params url m p) n 0 = k"
    using assms by (intro last_attempt_first_final) (auto simp: is_final_def)
  from assms(2) have "0 < n" by simp
  with assms last show ?thesis
    unfolding send_with_retries_mechanism_def retry_loop_from_start
    by (simp add: dispatch_spec_result dispatch_spec_io_calls
        record_outcome_def BaseResponse_def)
qed

theorem dispatch_success_short_circuit_witness:
  "fst (send_with_retries_mechanism ''https://sms.ru/sms/send'' ''data'' [(''msg'', PyStr ''hi'')] 3
       \<lparr>connector = \<lparr>limit = 100, limit_per_host = 10, keepalive_timeout = 30, ssl = True\<rparr>, closed = False\<rparr>
       (\<lambda>_ i. if i < 2 then Response 503 PyNone else Response 200 (PyStr ''ok''))) =
     BaseResponse\<lparr>status_code := Some 200, details := PyStr ''ok'', execute_status := True\<rparr>
   \<and> length (io_calls (snd (send_with_retries_mechanism ''https://sms.ru/sms/send'' ''data'' [(''msg'', PyStr ''hi'')] 3
       \<lparr>connector = \<lparr>limit = 100, limit_per_host = 10, keepalive_timeout = 30, ssl = True\<rparr>, closed = False\<rparr>
       (\<lambda>_ i. if i < 2 then Response 503 PyNone else Response 200 (PyStr ''ok''))))) = 3"
  using dispatch_success_short_circuit [where pool = "\<lparr>connector = \<lparr>limit = 100, limit_per_host = 10, keepalive_timeout = 30, ssl = True\<rparr>, closed = False\<rparr>" and k = 2 and n = 3
      and env = "\<lambda>_ i. if i < 2 then Response 503 PyNone else Response 200 (PyStr ''ok'')" and url = "''https://sms.ru/sms/send''" and m = "''data''" and p = "[(''msg'', PyStr ''hi'')]" and st = 200 and data = "PyStr ''ok''"]
  by (simp add: is_final_def response_ok_def is_client_error_def)

text \<open>
  C3: A client-error response (400 to 499) on the first attempt stops the dispatcher:
  one request, no sleep, and the result carries the status and body with
  \<open>execute_status\<close> false, whatever the retry budget.
\<close>

theorem dispatch_client_error_stops:
  assumes "\<not> closed pool" and "0 < n"
    and "env (request_params url m p) 0 = Response st data" and "is_client_error st"
  shows "send_with_retries_mechanism url m p n pool env =
           (BaseResponse\<lparr>status_code := Some st, details := data\<rparr>, [Io (request_params url m p)])"
proof -
  have fin: "is_final (env (request_params url m p) 0)"
    using assms by (simp add: is_final_def)
  have "\<not> response_ok st" using assms(4) by (simp add: response_ok_def is_client_error_def)
  with assms fin show ?thesis
    unfolding send_with_retries_mechanism_def retry_loop_from_start
    by (simp add: dispatch_spec_def last_attempt_final
        record_outcome_def attempt_effects_def backs_off_def BaseResponse_def)
qed

theorem dispatch_client_error_stops_witness:
  "send_with_retries_mechanism ''https://sms.ru/sms/send'' ''data'' [(''msg'', PyStr ''hi'')] 3
       \<lparr>connector = \<lparr>limit = 100, limit_per_host = 10, keepalive_timeout = 30, ssl = True\<rparr>, closed = False\<rparr>
       (\<lambda>_ _. Response 429 (PyStr ''Too Many Requests'')) =
   (BaseResponse\<lparr>status_code := Some 429, details := PyStr ''Too Many Requests''\<rparr>,
    [Io (request_params ''https://sms.ru/sms/send'' ''data'' [(''msg'', PyStr ''hi'')])])"
  using dispatch_client_error_stops [where pool = "\<lparr>connector = \<lparr>limit = 100, limit_per_host = 10, keepalive_timeout = 30, ssl = True\<rparr>, closed = False\<rparr>" and n = 3
      and env = "\<lambda>_ _. Response 429 (PyStr ''Too Many Requests'')" and url = "''https://sms.ru/sms/send''" and m = "''data''" and p = "[(''msg'', PyStr ''hi'')]" and st = 429
      and data = "PyStr ''Too Many Requests''"]
  by (simp add: is_client_error_def)

text \<open>
  C4: When every response is a server error (status 500 or more), the dispatcher makes
  exactly \<open>max_retries\<close> requests and sleeps after every one of them, the last
  included: the sleeps are \<open>1, 2, .., 2^(max_retries-1)\<close>.  The spec (4.1, 8) says
  backoff never follows the final attempt; the response branch of the code has no
  such guard.
\<close>

theorem dispatch_server_errors_sleep_after_last:
  assumes "\<not> closed pool" and "0 < n"
    and "\<forall>i<nat n. \<exists>st data. env (request_params url m p) i = Response st data \<and> 500 \<le> st"
  shows "length (io_calls (snd (send_with_retries_mechanism url m p n pool env))) = nat n
         \<and> sleeps (snd (send_with_retries_mechanism url m p n pool env)) = map backoff [0..<nat n]"
proof -
  let ?req = "request_params url m p"
  have tr: "\<forall>i<nat n. \<not> is_final (env ?req i) \<and> backs_off n i (env ?req i)"
    using assms(3) by (fastforce simp: is_final_def backs_off_def response_ok_def is_client_error_def)
  then have last: "last_attempt env ?req n 0 = nat n - 1"
    using assms(2) by (simp add: last_attempt_all_transient)
  have k: "Suc (nat n - 1) = nat n" using assms(2) by simp
  show ?thesis using assms(1,2) tr
    unfolding send_with_retries_mechanism_def retry_loop_from_start
    by (simp add: dispatch_spec_io_calls dispatch_spec_sleeps
        last k concat_map_if_all)
qed

theorem dispatch_server_errors_sleep_after_last_witness:
  "length (io_calls (snd (send_with_retries_mechanism ''https://sms.ru/sms/send'' ''data'' [(''msg'', PyStr ''hi'')] 3
       \<lparr>connector = \<lparr>limit = 100, limit_per_host = 10, keepalive_timeout = 30, ssl = True\<rparr>, closed = False\<rparr>
       (\<lambda>_ _. Response 502 PyNone)))) = 3
   \<and> sleeps (snd (send_with_retries_mechanism ''https://sms.ru/sms/send'' ''data'' [(''msg'', PyStr ''hi'')] 3
       \<lparr>connector = \<lparr>limit = 100, limit_per_host = 10, keepalive_timeout = 30, ssl = True\<rparr>, closed = False\<rparr>
       (\<lambda>_ _. Response 502 PyNone))) = [1, 2, 4]"
  using dispatch_server_errors_sleep_after_last [where pool = "\<lparr>connector = \<lparr>limit = 100, limit_per_host = 10, keepalive_timeout = 30, ssl = True\<rparr>, closed = False\<rparr>" and n = 3
      and env = "\<lambda>_ _. Response 502 PyNone" and url = "''https://sms.ru/sms/send''" and m = "''data''" and p = "[(''msg'', PyStr ''hi'')]"]
  by (simp add: backoff_def upt_rec)

text \<open>
  C5: When every attempt raises an exception without a 4xx status, the dispatcher makes
  exactly \<open>max_retries\<close> requests and sleeps \<open>1, 2, .., 2^(max_retries-2)\<close> between
  them, never after the last.
\<close>

theorem dispatch_exceptions_back_off_between_attempts:
  assumes "\<not> closed pool" and "0 < n"
    and "\<forall>i<nat n. \<exists>sa msg. env (request_params url m p) i = Raised sa msg
                       \<and> \<not> is_client_error (raised_code sa)"
  shows "length (io_calls (snd (send_with_retries_mechanism url m p n pool env))) = nat n
         \<and> sleeps (snd (send_with_retries_mechanism url m p n pool env)) = map backoff [0..<nat n - 1]"
  using dispatch_spec_all_raised [OF assms(2), of env "request_params url m p"] assms(1,3)
  unfolding send_with_retries_mechanism_def retry_loop_from_start by simp

theorem dispatch_exceptions_back_off_witness:
  "length (io_calls (snd (send_with_retries_mechanism ''https://sms.ru/sms/send'' ''data'' [(''msg'', PyStr ''hi'')] 3
       \<lparr>connector = \<lparr>limit = 100, limit_per_host = 10, keepalive_timeout = 30, ssl = True\<rparr>, closed = False\<rparr>
       (\<lambda>_ _. Raised None ''Cannot connect to host'')))) = 3
   \<and> sleeps (snd (send_with_retries_mechanism ''https://sms.ru/sms/send'' ''data'' [(''msg'', PyStr ''hi'')] 3
       \<lparr>connector = \<lparr>limit = 100, limit_per_host = 10, keepalive_timeout = 30, ssl = True\<rparr>, closed = False\<rparr>
       (\<lambda>_ _. Raised None ''Cannot connect to host''))) = [1, 2]"
  using dispatch_exceptions_back_off_between_attempts [where pool = "\<lparr>connector = \<lparr>limit = 100, limit_per_host = 10, keepalive_timeout = 30, ssl = True\<rparr>, closed = False\<rparr>" and n = 3
      and env = "\<lambda>_ _. Raised None ''Cannot connect to host''" and url = "''https://sms.ru/sms/send''" and m = "''data''" and p = "[(''msg'', PyStr ''hi'')]"]
  by (simp add: backoff_def upt_rec raised_code_def is_client_error_def)

text \<open>
  C6: An exception that carries a client-error status (for example aiohttp's
  \<open>ContentTypeError\<close> on a 404 page that is not JSON) is not final: the dispatcher
  repeats the request \<open>max_retries\<close> times, without any backoff.  The spec says
  4xx-classified exceptions stop immediately.
\<close>

theorem dispatch_raised_client_error_retried:
  assumes "\<not> closed pool"
    and "\<forall>i<nat n. \<exists>c msg. env (request_params url m p) i = Raised (Some c) msg \<and> is_client_error c"
  shows "length (io_calls (snd (send_with_retries_mechanism url m p n pool env))) = nat n
         \<and> sleeps (snd (send_with_retries_mechanism url m p n pool env)) = []"
proof (cases "0 < n")
  case True
  let ?req = "request_params url m p"
  have nf: "\<forall>i<nat n. \<not> is_final (env ?req i) \<and> \<not> backs_off n i (env ?req i)"
    using assms(2) by (fastforce simp: is_final_def backs_off_def raised_code_def)
  then have last: "last_attempt env ?req n 0 = nat n - 1"
    using True by (simp add: last_attempt_all_transient)
  have k: "Suc (nat n - 1) = nat n" using True by simp
  show ?thesis using assms(1) True nf
    unfolding send_with_retries_mechanism_def retry_loop_from_start
    by (simp add: dispatch_spec_io_calls dispatch_spec_sleeps
        last k concat_map_if_none)
next
  case False
  then show ?thesis
    unfolding send_with_retries_mechanism_def retry_loop_from_start
    by (simp add: dispatch_spec_def)
qed

theorem dispatch_raised_client_error_retried_witness:
  "length (io_calls (snd (send_with_retries_mechanism ''https://sms.ru/sms/send'' ''data'' [(''msg'', PyStr ''hi'')] 3
       \<lparr>connector = \<lparr>limit = 100, limit_per_host = 10, keepalive_timeout = 30, ssl = True\<rparr>, closed = False\<rparr>
       (\<lambda>_ _. Raised (Some 404) ''Attempt to decode JSON with unexpected mimetype'')))) = 3
   \<and> sleeps (snd (send_with_retries_mechanism ''https://sms.ru/sms/send'' ''data'' [(''msg'', PyStr ''hi'')] 3
       \<lparr>connector = \<lparr>limit = 100, limit_per_host = 10, keepalive_timeout = 30, ssl = True\<rparr>, closed = False\<rparr>
       (\<lambda>_ _. Raised (Some 404) ''Attempt to decode JSON with unexpected mimetype''))) = []"
  using dispatch_raised_client_error_retried [where pool = "\<lparr>connector = \<lparr>limit = 100, limit_per_host = 10, keepalive_timeout = 30, ssl = True\<rparr>, closed = False\<rparr>" and n = 3
      and env = "\<lambda>_ _. Raised (Some 404) ''Attempt to decode JSON with unexpected mimetype''" and url = "''https://sms.ru/sms/send''" and m = "''data''" and p = "[(''msg'', PyStr ''hi'')]"]
  by (simp add: is_client_error_def)

text \<open>
  C16: The dispatcher never makes more than \<open>max_retries\<close> requests (none for a budget of
  zero or less), and at least one when the budget is positive.
\<close>

theorem dispatch_attempts_bounded:
  "length (io_calls (snd (send_with_retries_mechanism url m p n pool env))) \<le> nat n
   \<and> (0 < n \<longrightarrow> 0 < length (io_calls (snd (send_with_retries_mechanism url m p n pool env))))"
  using last_attempt_less [of 0 n]
  unfolding send_with_retries_mechanism_def retry_loop_from_start
    by (simp add: dispatch_spec_io_calls Suc_leI)

theorem dispatch_attempts_bounded_witness:
  "length (io_calls (snd (send_with_retries_mechanism ''https://sms.ru/sms/send'' ''data'' [(''msg'', PyStr ''hi'')] 3
       \<lparr>connector = \<lparr>limit = 100, limit_per_host = 10, keepalive_timeout = 30, ssl = True\<rparr>, closed = False\<rparr>
       (\<lambda>_ _. Response 502 PyNone)))) \<le> 3
   \<and> 0 < length (io_calls (snd (send_with_retries_mechanism ''https://sms.ru/sms/send'' ''data'' [(''msg'', PyStr ''hi'')] 3
       \<lparr>connector = \<lparr>limit = 100, limit_per_host = 10, keepalive_timeout = 30, ssl = True\<rparr>, closed = False\<rparr>
       (\<lambda>_ _. Response 502 PyNone))))"
  using dispatch_attempts_bounded [where pool = "\<lparr>connector = \<lparr>limit = 100, limit_per_host = 10, keepalive_timeout = 30, ssl = True\<rparr>, closed = False\<rparr>" and n = 3
      and env = "\<lambda>_ _. Response 502 PyNone" and url = "''https://sms.ru/sms/send''" and m = "''data''" and p = "[(''msg'', PyStr ''hi'')]"]
  by simp

text \<open>
  C19: The result of the dispatcher satisfies the outcome invariant: \<open>execute_status\<close>
  is set only together with a status code for which aiohttp's \<open>ok\<close> holds.
\<close>

theorem dispatch_result_inv:
  "response_inv response_ok (fst (send_with_retries_mechanism url m p n pool env))"
  unfolding send_with_retries_mechanism_def retry_loop_from_start by (rule dispatch_spec_result_inv)

theorem dispatch_result_inv_witness:
  "response_inv response_ok (fst (send_with_retries_mechanism ''https://sms.ru/sms/send'' ''data'' [(''msg'', PyStr ''hi'')] 3
       \<lparr>connector = \<lparr>limit = 100, limit_per_host = 10, keepalive_timeout = 30, ssl = True\<rparr>, closed = False\<rparr>
       (\<lambda>_ i. if i < 2 then Response 503 PyNone else Response 200 (PyStr ''ok''))))"
  by (rule dispatch_result_inv)

text \<open>
  C18: The dispatcher's sleeps are \<open>2^i\<close> for strictly increasing attempt indices
  \<open>i < max_retries\<close>, so that their sum never exceeds \<open>2^max_retries - 1\<close>.
\<close>

theorem dispatch_backoff_schedule:
  "\<exists>xs. sorted_wrt (<) xs \<and> set xs \<subseteq> {..<nat n}
        \<and> sleeps (snd (send_with_retries_mechanism url m p n pool env)) = map backoff xs
        \<and> sum_list (sleeps (snd (send_with_retries_mechanism url m p n pool env))) \<le> 2 ^ nat n - 1"
proof -
  obtain xs where xs: "sorted_wrt (<) xs" "set xs \<subseteq> {..<nat n}"
    "sleeps (snd (send_with_retries_mechanism url m p n pool env)) = map backoff xs"
    using dispatch_spec_backoff_schedule [of n "session_post pool env" "request_params url m p"]
    unfolding send_with_retries_mechanism_def retry_loop_from_start by blast
  moreover have "sum_list (map backoff xs) \<le> 2 ^ nat n - 1"
    using xs(1,2) by (intro sum_backoff_subset) (auto simp: strict_sorted_iff)
  ultimately show ?thesis by metis
qed

end
