(* ===== verification/SmtpClient.thy ===== *)
theory SmtpClient
  imports Prelude
begin

text \<open>
  The parts of the libraries \<open>email.mime\<close> and \<open>aiosmtplib\<close> that
  \<open>src/notifications/processors/email.py\<close> calls, as far as the processor can observe
  them.  This is not repository code: it states what the model assumes of the library.
  \<^item> An \<open>aiosmtplib.SMTP\<close> object is a record holding its connection parameters, whether
    its transport is open, and whether the server session is authenticated (the latter a
    ghost field: the library does not track it, the server does).
  \<^item> Every command that reaches the network is one \<open>Io\<close> effect; its outcome is given by
    the oracle \<open>smtp_env\<close>, indexed by the number of network commands issued before it
    (\<open>None\<close>: the server accepted it).
  \<^item> A command other than \<open>connect\<close> on a client whose transport is not open raises
    \<open>SMTPServerDisconnected\<close> without touching the network; an error that loses the
    transport (disconnect, timeout) leaves the client unconnected.
\<close>

section \<open>Exceptions\<close>

text \<open>
  The exception classes \<open>email.py\<close> distinguishes, each with its \<open>str(error)\<close>;
  \<open>OtherException\<close> is any other \<open>Exception\<close>.
\<close>

datatype smtp_error =
    SMTPServerDisconnected string
  | SMTPTimeoutError string
  | SMTPConnectError string
  | SMTPRecipientsRefused string
  | SMTPSenderRefused string
  | SMTPAuthenticationError string
  | OtherException string

primrec error_str :: "smtp_error \<Rightarrow> string" where
  "error_str (SMTPServerDisconnected m) = m"
| "error_str (SMTPTimeoutError m) = m"
| "error_str (SMTPConnectError m) = m"
| "error_str (SMTPRecipientsRefused m) = m"
| "error_str (SMTPSenderRefused m) = m"
| "error_str (SMTPAuthenticationError m) = m"
| "error_str (OtherException m) = m"

primrec drops_connection :: "smtp_error \<Rightarrow> bool" where
  "drops_connection (SMTPServerDisconnected _) = True"
| "drops_connection (SMTPTimeoutError _) = True"
| "drops_connection (SMTPConnectError _) = False"
| "drops_connection (SMTPRecipientsRefused _) = False"
| "drops_connection (SMTPSenderRefused _) = False"
| "drops_connection (SMTPAuthenticationError _) = False"
| "drops_connection (OtherException _) = False"

section \<open>Messages, commands, clients\<close>

text \<open>A \<open>MIMEMultipart\<close> with \<open>From\<close>, \<open>To\<close>, \<open>Subject\<close> headers and one attached \<open>MIMEText\<close>.\<close>

record mime_message =
  msg_from :: string
  msg_to :: string
  msg_subject :: string
  msg_text :: string
  msg_subtype :: string
  msg_charset :: string

datatype smtp_cmd =
    Connect string int bool
  | Login string string
  | Noop
  | Quit
  | SendMessage mime_message

type_synonym smtp_env = "nat \<Rightarrow> smtp_error option"

type_synonym smtp_trace = "smtp_cmd effect list"

record smtp_client =
  hostname :: string
  port :: int
  start_tls :: bool
  is_connected :: bool
  logged_in :: bool

text \<open>\<open>AIO_SMTP(hostname=.., port=.., start_tls=..)\<close>: a fresh, unconnected client.\<close>

definition new_smtp_client :: "string \<Rightarrow> int \<Rightarrow> bool \<Rightarrow> smtp_client" where
  "new_smtp_client h p tls =
     \<lparr>hostname = h, port = p, start_tls = tls, is_connected = False, logged_in = False\<rparr>"

definition not_connected_error :: smtp_error where
  "not_connected_error = SMTPServerDisconnected ''Not connected to SMTP server''"

type_synonym 'a client_result = "(smtp_error + 'a) \<times> smtp_client \<times> smtp_trace"

text \<open>
  One network round trip: record the command, read the oracle's answer for it, and on
  success apply the command's effect \<open>ok\<close> to the client.
\<close>

definition smtp_io ::
  "smtp_env \<Rightarrow> smtp_cmd \<Rightarrow> (smtp_client \<Rightarrow> smtp_client) \<Rightarrow> smtp_client \<Rightarrow> smtp_trace \<Rightarrow> unit client_result"
where
  "smtp_io env cmd ok c tr =
     (case env (length (io_calls tr)) of
        None \<Rightarrow> (Inr (), ok c, tr @ [Io cmd])
      | Some e \<Rightarrow> (Inl e, if drops_connection e then c\<lparr>is_connected := False, logged_in := False\<rparr> else c,
                   tr @ [Io cmd]))"

definition smtp_command ::
  "smtp_env \<Rightarrow> smtp_cmd \<Rightarrow> (smtp_client \<Rightarrow> smtp_client) \<Rightarrow> smtp_client \<Rightarrow> smtp_trace \<Rightarrow> unit client_result"
where
  "smtp_command env cmd ok c tr =
     (if is_connected c then smtp_io env cmd ok c tr else (Inl not_connected_error, c, tr))"

definition smtp_connect :: "smtp_env \<Rightarrow> smtp_client \<Rightarrow> smtp_trace \<Rightarrow> unit client_result" where
  "smtp_connect env c tr =
     smtp_io env (Connect (hostname c) (port c) (start_tls c)) (\<lambda>c. c\<lparr>is_connected := True\<rparr>) c tr"

definition smtp_login ::
  "smtp_env \<Rightarrow> string \<Rightarrow> string \<Rightarrow> smtp_client \<Rightarrow> smtp_trace \<Rightarrow> unit client_result" where
  "smtp_login env user pw = smtp_command env (Login user pw) (\<lambda>c. c\<lparr>logged_in := True\<rparr>)"

definition smtp_noop :: "smtp_env \<Rightarrow> smtp_client \<Rightarrow> smtp_trace \<Rightarrow> unit client_result" where
  "smtp_noop env = smtp_command env Noop id"

definition smtp_quit :: "smtp_env \<Rightarrow> smtp_client \<Rightarrow> smtp_trace \<Rightarrow> unit client_result" where
  "smtp_quit env = smtp_command env Quit (\<lambda>c. c\<lparr>is_connected := False, logged_in := False\<rparr>)"

definition smtp_send_message ::
  "smtp_env \<Rightarrow> mime_message \<Rightarrow> smtp_client \<Rightarrow> smtp_trace \<Rightarrow> unit client_result" where
  "smtp_send_message env msg = smtp_command env (SendMessage msg) id"

end
