(* ===== verification/Email.thy ===== *)
theory Email
  imports Schemas SmtpClient
begin

text \<open>
  The stateful connection manager \<open>GmailNotificationProcessor\<close> of
  \<open>src/notifications/processors/email.py\<close>.  Its state is the record
  \<open>gmail_processor\<close> (the constructor's fields and the owned \<open>_smtp_client\<close>); every
  method takes the processor together with the trace of effects so far (\<open>gstate\<close>)
  and returns them updated.  A raised exception is an \<open>Inl\<close> value; the methods
  \<open>_reset_connection\<close> and \<open>send\<close> never raise.
\<close>

section \<open>State\<close>

record gmail_processor =
  gmail_address :: string
  gmail_app_password :: string
  smtp_gmail_hostname :: string
  smtp_gmail_port :: int
  smtp_gmail_start_tls :: bool
  smtp_client :: "smtp_client option"

type_synonym gstate = "gmail_processor \<times> smtp_trace"

definition GmailNotificationProcessor ::
  "string \<Rightarrow> string \<Rightarrow> string \<Rightarrow> int \<Rightarrow> bool \<Rightarrow> gmail_processor" where
  "GmailNotificationProcessor addr pw host p tls =
     \<lparr>gmail_address = addr, gmail_app_password = pw, smtp_gmail_hostname = host,
      smtp_gmail_port = p, smtp_gmail_start_tls = tls, smtp_client = None\<rparr>"

text \<open>The constructor's defaults: \<open>smtp.gmail.com\<close>, port 587, STARTTLS.\<close>

definition default_gmail_processor :: "string \<Rightarrow> string \<Rightarrow> gmail_processor" where
  "default_gmail_processor addr pw = GmailNotificationProcessor addr pw ''smtp.gmail.com'' 587 True"

section \<open>Calls on the owned client\<close>

text \<open>
  \<open>self._smtp_client.m(...)\<close>: the call on the current client, whose updated state is
  stored back; on \<open>None\<close> Python raises \<open>AttributeError\<close>.
\<close>

definition client_call ::
  "(smtp_client \<Rightarrow> smtp_trace \<Rightarrow> unit client_result) \<Rightarrow> gstate \<Rightarrow> (smtp_error + unit) \<times> gstate" where
  "client_call f s =
     (case smtp_client (fst s) of
        None \<Rightarrow> (Inl (OtherException ''NoneType object has no attribute''), s)
      | Some c \<Rightarrow> (case f c (snd s) of
                     (r, c', tr') \<Rightarrow> (r, ((fst s)\<lparr>smtp_client := Some c'\<rparr>, tr'))))"

section \<open>Connection lifecycle\<close>

text \<open>\<open>_reset_connection\<close>: quit if there is a client, ignore any error, drop the client.\<close>

definition reset_connection :: "smtp_env \<Rightarrow> gstate \<Rightarrow> gstate" where
  "reset_connection env s =
     (case smtp_client (fst s) of
        None \<Rightarrow> s
      | Some c \<Rightarrow> (case smtp_quit env c (snd s) of
                     (_, _, tr') \<Rightarrow> ((fst s)\<lparr>smtp_client := None\<rparr>, tr')))"

text \<open>The tail of \<open>_get_connection\<close>: a new client, \<open>connect()\<close>, then \<open>login()\<close>.\<close>

definition establish_connection :: "smtp_env \<Rightarrow> gstate \<Rightarrow> (smtp_error + unit) \<times> gstate" where
  "establish_connection env s =
     (let p = fst s;
          s1 = (p\<lparr>smtp_client := Some (new_smtp_client (smtp_gmail_hostname p) (smtp_gmail_port p)
                                          (smtp_gmail_start_tls p))\<rparr>, snd s)
      in case client_call (smtp_connect env) s1 of
           (Inl e, s2) \<Rightarrow> (Inl e, s2)
         | (Inr _, s2) \<Rightarrow> client_call (smtp_login env (gmail_address p) (gmail_app_password p)) s2)"

text \<open>
  \<open>_get_connection\<close>: with a client, probe it with NOOP and keep it if the probe
  succeeds; if the probe fails, reset and fall through to a fresh connection.
\<close>

definition get_connection :: "smtp_env \<Rightarrow> gstate \<Rightarrow> (smtp_error + unit) \<times> gstate" where
  "get_connection env s =
     (case smtp_client (fst s) of
        Some _ \<Rightarrow> (case client_call (smtp_noop env) s of
                     (Inr _, s1) \<Rightarrow> (Inr (), s1)
                   | (Inl _, s1) \<Rightarrow> establish_connection env (reset_connection env s1))
      | None \<Rightarrow> establish_connection env s)"

text \<open>\<open>close_session\<close>: quit without suppressing errors and without dropping the client.\<close>

definition close_session :: "smtp_env \<Rightarrow> gstate \<Rightarrow> (smtp_error + unit) \<times> gstate" where
  "close_session env s =
     (case smtp_client (fst s) of
        None \<Rightarrow> (Inr (), s)
      | Some _ \<Rightarrow> client_call (smtp_quit env) s)"

section \<open>Sending\<close>

definition build_message :: "string \<Rightarrow> string \<Rightarrow> string \<Rightarrow> string \<Rightarrow> mime_message" where
  "build_message from_addr to_email subject text =
     \<lparr>msg_from = from_addr, msg_to = to_email, msg_subject = subject, msg_text = text,
      msg_subtype = ''plain'', msg_charset = ''utf-8''\<rparr>"

primrec is_connectivity_error :: "smtp_error \<Rightarrow> bool" where
  "is_connectivity_error (SMTPServerDisconnected _) = True"
| "is_connectivity_error (SMTPTimeoutError _) = True"
| "is_connectivity_error (SMTPConnectError _) = True"
| "is_connectivity_error (SMTPRecipientsRefused _) = False"
| "is_connectivity_error (SMTPSenderRefused _) = False"
| "is_connectivity_error (SMTPAuthenticationError _) = False"
| "is_connectivity_error (OtherException _) = False"

primrec is_rejection_error :: "smtp_error \<Rightarrow> bool" where
  "is_rejection_error (SMTPServerDisconnected _) = False"
| "is_rejection_error (SMTPTimeoutError _) = False"
| "is_rejection_error (SMTPConnectError _) = False"
| "is_rejection_error (SMTPRecipientsRefused _) = True"
| "is_rejection_error (SMTPSenderRefused _) = True"
| "is_rejection_error (SMTPAuthenticationError _) = True"
| "is_rejection_error (OtherException _) = False"

text \<open>
  The body of the \<open>try\<close> block: \<open>_get_connection()\<close>, the \<open>assert\<close>, then
  \<open>send_message(msg)\<close>.  An \<open>AssertionError\<close> has the empty message.
\<close>

definition send_attempt :: "smtp_env \<Rightarrow> mime_message \<Rightarrow> gstate \<Rightarrow> (smtp_error + unit) \<times> gstate" where
  "send_attempt env msg s =
     (case get_connection env s of
        (Inl e, s1) \<Rightarrow> (Inl e, s1)
      | (Inr _, s1) \<Rightarrow>
          (case smtp_client (fst s1) of
             None \<Rightarrow> (Inl (OtherException ''''), s1)
           | Some _ \<Rightarrow> client_call (smtp_send_message env msg) s1))"

definition sleep :: "nat \<Rightarrow> gstate \<Rightarrow> gstate" where
  "sleep t s = (fst s, snd s @ [Sleep t])"

function send_loop ::
  "smtp_env \<Rightarrow> mime_message \<Rightarrow> int \<Rightarrow> nat \<Rightarrow> base_response \<Rightarrow> gstate \<Rightarrow> base_response \<times> gstate"
where
  "send_loop env msg max_retries attempt result s =
     (if int attempt < max_retries then
        (case send_attempt env msg s of
           (Inr _, s1) \<Rightarrow>
             (result\<lparr>status_code := Some 200, details := PyStr ''The message was sent successfully'',
                     execute_status := True\<rparr>, s1)
         | (Inl e, s1) \<Rightarrow>
             (if is_connectivity_error e then
                (let s2 = reset_connection env s1
                 in if int attempt < max_retries - 1
                    then send_loop env msg max_retries (Suc attempt) result (sleep (backoff attempt) s2)
                    else send_loop env msg max_retries (Suc attempt)
                           (result\<lparr>status_code := Some 500, details := PyStr (error_str e)\<rparr>) s2)
              else if is_rejection_error e then
                (result\<lparr>status_code := Some 400, details := PyStr (error_str e)\<rparr>, s1)
              else (result\<lparr>status_code := Some 500, details := PyStr (error_str e)\<rparr>, s1)))
      else (result, s))"
  by pat_completeness auto
termination
  by (relation "measure (\<lambda>(env, msg, n, a, r, s). nat (n - int a))") auto

declare send_loop.simps [simp del]

definition gmail_send ::
  "smtp_env \<Rightarrow> string \<Rightarrow> string \<Rightarrow> string \<Rightarrow> int \<Rightarrow> gstate \<Rightarrow> base_response \<times> gstate" where
  "gmail_send env to_email subject text max_retries s =
     send_loop env (build_message (gmail_address (fst s)) to_email subject text) max_retries 0
       BaseResponse s"

section \<open>Auxiliary notions for the proofs\<close>

text \<open>
  Names for what the proofs talk about: the processor's configuration, the client and
  the commands \<open>_get_connection\<close> creates from it, the well-formedness invariant of the
  owned client, and the processor states reachable from the constructor by any sequence
  of \<open>send\<close> and \<open>close_session\<close> calls under any network behaviour.
\<close>

definition fresh_client :: "gmail_processor \<Rightarrow> smtp_client" where
  "fresh_client p = new_smtp_client (smtp_gmail_hostname p) (smtp_gmail_port p) (smtp_gmail_start_tls p)"

definition connect_cmd :: "gmail_processor \<Rightarrow> smtp_cmd" where
  "connect_cmd p = Connect (smtp_gmail_hostname p) (smtp_gmail_port p) (smtp_gmail_start_tls p)"

definition login_cmd :: "gmail_processor \<Rightarrow> smtp_cmd" where
  "login_cmd p = Login (gmail_address p) (gmail_app_password p)"

definition config_of :: "gmail_processor \<Rightarrow> string \<times> string \<times> string \<times> int \<times> bool" where
  "config_of p = (gmail_address p, gmail_app_password p, smtp_gmail_hostname p, smtp_gmail_port p,
                  smtp_gmail_start_tls p)"

definition client_inv :: "gmail_processor \<Rightarrow> smtp_client \<Rightarrow> bool" where
  "client_inv p c =
     (hostname c = smtp_gmail_hostname p \<and> port c = smtp_gmail_port p
      \<and> start_tls c = smtp_gmail_start_tls p \<and> (logged_in c \<longrightarrow> is_connected c))"

definition gmail_inv :: "gmail_processor \<Rightarrow> bool" where
  "gmail_inv p = (case smtp_client p of None \<Rightarrow> True | Some c \<Rightarrow> client_inv p c)"

text \<open>
  The spec's rule that \<open>CONNECTING\<close> never persists across calls: an owned client whose
  transport is open has also completed \<open>login()\<close>.
\<close>

definition auth_inv :: "gmail_processor \<Rightarrow> bool" where
  "auth_inv p = (case smtp_client p of None \<Rightarrow> True | Some c \<Rightarrow> (is_connected c \<longrightarrow> logged_in c))"

inductive gmail_reachable :: "gstate \<Rightarrow> bool" where
  init: "gmail_reachable (GmailNotificationProcessor addr pw host prt tls, [])"
| send: "gmail_reachable s \<Longrightarrow> gmail_reachable (snd (gmail_send env to_email subject text n s))"
| close: "gmail_reachable s \<Longrightarrow> gmail_reachable (snd (close_session env s))"

section \<open>Effects of the operations on the trace\<close>

lemma smtp_io_ext: "io_ext tr (snd (snd (smtp_io env cmd ok c tr)))"
  by (simp add: smtp_io_def split: option.split)

lemma smtp_command_ext: "io_ext tr (snd (snd (smtp_command env cmd ok c tr)))"
  by (simp add: smtp_command_def smtp_io_ext)

lemma client_call_cases:
  assumes "client_call f s = (r, s')"
  obtains "smtp_client (fst s) = None" "s' = s"
  | c c' where "smtp_client (fst s) = Some c" "f c (snd s) = (r, c', snd s')"
       "fst s' = (fst s)\<lparr>smtp_client := Some c'\<rparr>"
  using assms by (cases "smtp_client (fst s)") (auto simp: client_call_def split: prod.splits)

lemma client_call_ext:
  assumes "\<And>c tr. io_ext tr (snd (snd (f c tr)))"
  shows "io_ext (snd s) (snd (snd (client_call f s)))"
proof -
  obtain r s' where eq: "client_call f s = (r, s')" by (cases "client_call f s")
  then show ?thesis
  proof (cases rule: client_call_cases)
    case 1
    then show ?thesis using eq by simp
  next
    case (2 c c')
    then show ?thesis using eq assms [where c = c and tr = "snd s"] by simp
  qed
qed

lemma reset_connection_ext: "io_ext (snd s) (snd (reset_connection env s))"
  using smtp_command_ext
  by (auto simp: reset_connection_def smtp_quit_def split: option.split prod.split)
     (metis snd_conv)

lemma client_call_command_ext: "io_ext (snd s) (snd (snd (client_call (smtp_command env cmd ok) s)))"
  by (rule client_call_ext) (rule smtp_command_ext)

lemma establish_connection_ext: "io_ext (snd s) (snd (snd (establish_connection env s)))"
proof -
  let ?p = "fst s"
  let ?s1 = "(?p\<lparr>smtp_client := Some (new_smtp_client (smtp_gmail_hostname ?p) (smtp_gmail_port ?p)
                                  (smtp_gmail_start_tls ?p))\<rparr>, snd s)"
  obtain r s2 where c: "client_call (smtp_connect env) ?s1 = (r, s2)" by (cases "client_call (smtp_connect env) ?s1")
  have "io_ext (snd ?s1) (snd (snd (client_call (smtp_connect env) ?s1)))"
    by (rule client_call_ext) (simp add: smtp_connect_def smtp_io_ext)
  then have e2: "io_ext (snd s) (snd s2)" using c by simp
  have e3: "io_ext (snd s2) (snd (snd (client_call (smtp_login env (gmail_address ?p) (gmail_app_password ?p)) s2)))"
    unfolding smtp_login_def by (rule client_call_command_ext)
  show ?thesis
    using c e2 e3 by (cases r) (auto simp: establish_connection_def Let_def intro: io_ext_trans)
qed

lemma get_connection_ext: "io_ext (snd s) (snd (snd (get_connection env s)))"
proof (cases "smtp_client (fst s)")
  case None
  then show ?thesis by (simp add: get_connection_def establish_connection_ext)
next
  case (Some c)
  obtain r s1 where n: "client_call (smtp_noop env) s = (r, s1)" by (cases "client_call (smtp_noop env) s")
  have e1: "io_ext (snd s) (snd s1)"
    using client_call_command_ext [of s env Noop id] n by (simp add: smtp_noop_def)
  have e2: "io_ext (snd s1) (snd (snd (establish_connection env (reset_connection env s1))))"
    using reset_connection_ext establish_connection_ext io_ext_trans by blast
  show ?thesis
    using Some n e1 e2 by (cases r) (auto simp: get_connection_def intro: io_ext_trans)
qed

lemma send_attempt_ext: "io_ext (snd s) (snd (snd (send_attempt env msg s)))"
proof -
  obtain r s1 where g: "get_connection env s = (r, s1)" by (cases "get_connection env s")
  have e1: "io_ext (snd s) (snd s1)" using get_connection_ext [of s env] g by simp
  have e2: "io_ext (snd s1) (snd (snd (client_call (smtp_send_message env msg) s1)))"
    unfolding smtp_send_message_def by (rule client_call_command_ext)
  show ?thesis
    using g e1 e2 by (cases r) (auto simp: send_attempt_def intro: io_ext_trans split: option.split)
qed

lemma establish_connection_eq:
  "establish_connection env (p, tr) =
     (case env (length (io_calls tr)) of
        Some e \<Rightarrow> (Inl e, (p\<lparr>smtp_client := Some (fresh_client p)\<rparr>, tr @ [Io (connect_cmd p)]))
      | None \<Rightarrow>
          (case env (Suc (length (io_calls tr))) of
             None \<Rightarrow> (Inr (), (p\<lparr>smtp_client := Some ((fresh_client p)\<lparr>is_connected := True, logged_in := True\<rparr>)\<rparr>,
                          tr @ [Io (connect_cmd p), Io (login_cmd p)]))
           | Some e \<Rightarrow> (Inl e, (p\<lparr>smtp_client := Some (if drops_connection e then fresh_client p
                                                    else (fresh_client p)\<lparr>is_connected := True\<rparr>)\<rparr>,
                          tr @ [Io (connect_cmd p), Io (login_cmd p)]))))"
  by (simp add: establish_connection_def client_call_def smtp_connect_def smtp_login_def
      smtp_command_def smtp_io_def fresh_client_def new_smtp_client_def connect_cmd_def login_cmd_def
      split: option.split)

lemma noop_call_eq:
  "smtp_client p = Some c \<Longrightarrow> client_call (smtp_noop env) (p, tr) =
     (if \<not> is_connected c then (Inl not_connected_error, (p, tr))
      else case env (length (io_calls tr)) of
        None \<Rightarrow> (Inr (), (p, tr @ [Io Noop]))
      | Some e \<Rightarrow> (Inl e, (p\<lparr>smtp_client := Some (if drops_connection e
                                   then c\<lparr>is_connected := False, logged_in := False\<rparr> else c)\<rparr>,
                       tr @ [Io Noop])))"
  by (cases "env (length (io_calls tr))")
    (auto simp: client_call_def smtp_noop_def smtp_command_def smtp_io_def)

lemma reset_connection_eq:
  "smtp_client p = Some c \<Longrightarrow> reset_connection env (p, tr) =
     (p\<lparr>smtp_client := None\<rparr>, if is_connected c then tr @ [Io Quit] else tr)"
  by (simp add: reset_connection_def smtp_quit_def smtp_command_def smtp_io_def split: option.split)

text \<open>The equations that evaluate the processor on concrete states, for scenarios.\<close>

lemmas gmail_eval = default_gmail_processor_def GmailNotificationProcessor_def gmail_send_def
  send_loop.simps send_attempt_def get_connection_def establish_connection_eq noop_call_eq
  reset_connection_def close_session_def client_call_def smtp_send_message_def smtp_quit_def
  smtp_noop_def smtp_command_def smtp_io_def build_message_def fresh_client_def new_smtp_client_def
  connect_cmd_def login_cmd_def BaseResponse_def not_connected_error_def sleep_def Let_def

lemma establish_connection_Inr:
  "fst (establish_connection env s) = Inr x \<Longrightarrow>
   smtp_client (fst (snd (establish_connection env s))) =
     Some ((fresh_client (fst s))\<lparr>is_connected := True, logged_in := True\<rparr>)"
  by (cases s) (auto simp: establish_connection_eq split: option.splits)

lemma get_connection_Some:
  "smtp_client p = Some c \<Longrightarrow> get_connection env (p, tr) =
     (if is_connected c \<and> env (length (io_calls tr)) = None then (Inr (), (p, tr @ [Io Noop]))
      else establish_connection env (reset_connection env (snd (client_call (smtp_noop env) (p, tr)))))"
  by (cases "env (length (io_calls tr))") (simp_all add: get_connection_def noop_call_eq)

lemma get_connection_Inr_client:
  assumes "fst (get_connection env s) = Inr x"
  shows "\<exists>c. smtp_client (fst (snd (get_connection env s))) = Some c \<and> is_connected c"
proof (cases s)
  case (Pair p tr)
  show ?thesis
  proof (cases "smtp_client p")
    case None
    then show ?thesis using assms Pair establish_connection_Inr [of env s]
      by (simp add: get_connection_def)
  next
    case (Some c)
    then show ?thesis using assms Pair
      establish_connection_Inr [of env "reset_connection env (snd (client_call (smtp_noop env) (p, tr)))"]
      by (simp add: get_connection_Some split: if_splits)
  qed
qed

text \<open>
  C11: The \<open>assert self._smtp_client is not None\<close> in \<open>send\<close> never fails: whenever
  \<open>_get_connection\<close> returns normally a client is present, so an attempt is exactly
  \<open>_get_connection\<close> followed by \<open>send_message\<close>.
\<close>

theorem send_attempt_assert_unreachable:
  "send_attempt env msg s =
     (case get_connection env s of
        (Inl e, s1) \<Rightarrow> (Inl e, s1)
      | (Inr _, s1) \<Rightarrow> client_call (smtp_send_message env msg) s1)"
proof -
  obtain r s1 where Pair: "get_connection env s = (r, s1)" by (cases "get_connection env s")
  show ?thesis
  proof (cases r)
    case (Inl e)
    then show ?thesis using Pair by (simp add: send_attempt_def)
  next
    case (Inr x)
    then obtain c where "smtp_client (fst s1) = Some c"
      using Pair get_connection_Inr_client [of env s x] by auto
    then show ?thesis using Pair Inr by (simp add: send_attempt_def)
  qed
qed

lemma send_loop_exit: "\<not> int a < n \<Longrightarrow> send_loop env msg n a r s = (r, s)"
  by (simp add: send_loop.simps)

lemma send_loop_Inr:
  "int a < n \<Longrightarrow> send_attempt env msg s = (Inr x, s1) \<Longrightarrow>
   send_loop env msg n a r s =
     (r\<lparr>status_code := Some 200, details := PyStr ''The message was sent successfully'',
        execute_status := True\<rparr>, s1)"
  by (simp add: send_loop.simps [of env msg n a r s])

lemma send_loop_terminal:
  "int a < n \<Longrightarrow> send_attempt env msg s = (Inl e, s1) \<Longrightarrow> \<not> is_connectivity_error e \<Longrightarrow>
   send_loop env msg n a r s =
     (r\<lparr>status_code := Some (if is_rejection_error e then 400 else 500), details := PyStr (error_str e)\<rparr>, s1)"
  by (simp add: send_loop.simps [of env msg n a r s])

lemma send_loop_retry:
  "int a < n \<Longrightarrow> send_attempt env msg s = (Inl e, s1) \<Longrightarrow> is_connectivity_error e \<Longrightarrow>
   send_loop env msg n a r s =
     (if int a < n - 1 then send_loop env msg n (Suc a) r (sleep (backoff a) (reset_connection env s1))
      else (r\<lparr>status_code := Some 500, details := PyStr (error_str e)\<rparr>, reset_connection env s1))"
  by (simp add: send_loop.simps [of env msg n a r s] send_loop_exit Let_def)

lemma establish_fails:
  "env (length (io_calls (snd s))) = Some e \<Longrightarrow> fst (establish_connection env s) = Inl e"
  by (cases s) (simp add: establish_connection_eq)

lemma get_connection_all_fail:
  assumes "\<forall>k. \<exists>e. env k = Some e \<and> P e"
  shows "\<exists>e. fst (get_connection env s) = Inl e \<and> P e"
proof (cases s)
  case (Pair p tr)
  have est: "\<exists>e. fst (establish_connection env s') = Inl e \<and> P e" for s'
    using assms establish_fails by metis
  show ?thesis
  proof (cases "smtp_client p")
    case None
    then show ?thesis using Pair est [of s] by (simp add: get_connection_def)
  next
    case (Some c)
    moreover have "env (length (io_calls tr)) \<noteq> None" using assms by (metis option.distinct(1))
    ultimately show ?thesis using Pair est by (simp add: get_connection_Some)
  qed
qed

lemma send_attempt_all_fail:
  "\<forall>k. \<exists>e. env k = Some e \<and> P e \<Longrightarrow> \<exists>e s1. send_attempt env msg s = (Inl e, s1) \<and> P e"
  using get_connection_all_fail [of env P s]
  by (auto simp: send_attempt_def split: prod.split sum.split)

lemma sleep_sleeps [simp]: "sleeps (snd (sleep t s)) = sleeps (snd s) @ [t]"
  and sleep_client [simp]: "smtp_client (fst (sleep t s)) = smtp_client (fst s)"
  by (simp_all add: sleep_def)

lemma send_attempt_sleeps: "send_attempt env msg s = (r, s1) \<Longrightarrow> sleeps (snd s1) = sleeps (snd s)"
  using send_attempt_ext [of s env msg] by (simp add: io_ext_sleeps)

lemma reset_sleeps [simp]: "sleeps (snd (reset_connection env s)) = sleeps (snd s)"
  using reset_connection_ext by (rule io_ext_sleeps)

lemma reset_connection_client [simp]: "smtp_client (fst (reset_connection env s)) = None"
  by (auto simp: reset_connection_def split: option.split prod.split)

lemma send_loop_exhausted:
  assumes fail: "\<forall>k. \<exists>e. env k = Some e \<and> is_connectivity_error e"
  shows "int a < n \<Longrightarrow> \<exists>e s'. send_loop env msg n a r s =
           (r\<lparr>status_code := Some 500, details := PyStr (error_str e)\<rparr>, s')
         \<and> sleeps (snd s') = sleeps (snd s) @ map backoff [a..<nat n - 1]
         \<and> smtp_client (fst s') = None"
proof (induction "nat n - a" arbitrary: a s)
  case 0
  then show ?case by simp
next
  case (Suc k)
  obtain e s1 where att: "send_attempt env msg s = (Inl e, s1)" "is_connectivity_error e"
    using send_attempt_all_fail [OF fail] by blast
  have sl: "sleeps (snd s1) = sleeps (snd s)" using att(1) by (rule send_attempt_sleeps)
  show ?case
  proof (cases "int a < n - 1")
    case True
    then have k: "k = nat n - Suc a" and lt: "int (Suc a) < n" using Suc.hyps(2) by auto
    let ?s2 = "sleep (backoff a) (reset_connection env s1)"
    have "\<exists>e' s'. send_loop env msg n (Suc a) r ?s2 =
              (r\<lparr>status_code := Some 500, details := PyStr (error_str e')\<rparr>, s')
            \<and> sleeps (snd s') = sleeps (snd ?s2) @ map backoff [Suc a..<nat n - 1]
            \<and> smtp_client (fst s') = None"
      by (rule Suc.hyps(1) [OF k lt])
    then obtain e' s' where
      "send_loop env msg n (Suc a) r ?s2 =
         (r\<lparr>status_code := Some 500, details := PyStr (error_str e')\<rparr>, s')"
      "sleeps (snd s') = sleeps (snd s1) @ [backoff a] @ map backoff [Suc a..<nat n - 1]"
      "smtp_client (fst s') = None"
      by auto
    moreover have "[a..<nat n - 1] = a # [Suc a..<nat n - 1]" using True by (simp add: upt_conv_Cons)
    ultimately show ?thesis using Suc.prems att True sl by (simp add: send_loop_retry) blast
  next
    case False
    then have "nat n - 1 \<le> a" by simp
    then show ?thesis using Suc.prems att False sl by (simp add: send_loop_retry) blast
  qed
qed

lemma config_of_update [simp]: "config_of (p\<lparr>smtp_client := x\<rparr>) = config_of p"
  by (simp add: config_of_def)

lemma config_determines:
  "config_of p = config_of q \<Longrightarrow> fresh_client p = fresh_client q \<and> connect_cmd p = connect_cmd q
   \<and> login_cmd p = login_cmd q \<and> gmail_address p = gmail_address q"
  by (simp add: config_of_def fresh_client_def connect_cmd_def login_cmd_def)

lemma client_call_config: "config_of (fst (snd (client_call f s))) = config_of (fst s)"
  by (auto simp: client_call_def split: option.split prod.split)

lemma reset_connection_config [simp]: "config_of (fst (reset_connection env s)) = config_of (fst s)"
  by (auto simp: reset_connection_def split: option.split prod.split)

lemma establish_connection_config [simp]:
  "config_of (fst (snd (establish_connection env s))) = config_of (fst s)"
  by (cases s) (simp add: establish_connection_eq split: option.split)

lemma get_connection_config [simp]: "config_of (fst (snd (get_connection env s))) = config_of (fst s)"
  by (auto simp: get_connection_def client_call_config split: option.split prod.split sum.split)
     (metis client_call_config reset_connection_config establish_connection_config fst_conv snd_conv)+

lemma establish_connection_Inr_eq:
  "fst (establish_connection env s) = Inr x \<Longrightarrow> establish_connection env s =
     (Inr (), ((fst s)\<lparr>smtp_client := Some ((fresh_client (fst s))\<lparr>is_connected := True, logged_in := True\<rparr>)\<rparr>,
              snd s @ [Io (connect_cmd (fst s)), Io (login_cmd (fst s))]))"
  by (cases s) (auto simp: establish_connection_eq split: option.splits)

text \<open>
  C7: Liveness probe: when the owned session is live but the server fails the NOOP probe,
  a successful \<open>_get_connection\<close> has discarded it and re-established a fresh session
  (a new client from the configuration, connected and authenticated).  The commands
  issued are the probe, the \<open>QUIT\<close> of \<open>_reset_connection\<close> when the failed probe left
  the transport open, then \<open>connect\<close> and \<open>login\<close>.
\<close>

theorem probe_failure_reauthenticates:
  assumes "smtp_client (fst s) = Some c" and "is_connected c"
    and "env (length (io_calls (snd s))) = Some e"
    and "fst (get_connection env s) = Inr x"
  shows "smtp_client (fst (snd (get_connection env s))) =
           Some ((fresh_client (fst s))\<lparr>is_connected := True, logged_in := True\<rparr>)
         \<and> io_calls (snd (snd (get_connection env s))) =
             io_calls (snd s) @ Noop # (if drops_connection e then [] else [Quit])
               @ [connect_cmd (fst s), login_cmd (fst s)]"
proof -
  obtain p tr where s: "s = (p, tr)" by (cases s)
  let ?s1 = "snd (client_call (smtp_noop env) (p, tr))"
  let ?s2 = "reset_connection env ?s1"
  have g: "get_connection env s = establish_connection env ?s2"
    using assms(1-3) s by (simp add: get_connection_Some)
  have tr1: "snd ?s1 = tr @ [Io Noop]" and cf1: "config_of (fst ?s1) = config_of p"
    using assms(1-3) s by (simp_all add: noop_call_eq)
  have tr2: "snd ?s2 = tr @ [Io Noop] @ (if drops_connection e then [] else [Io Quit])"
    using assms(1-3) s by (simp add: noop_call_eq reset_connection_eq)
  have cf2: "config_of (fst ?s2) = config_of p" using cf1 by simp
  have est: "establish_connection env ?s2 =
     (Inr (), ((fst ?s2)\<lparr>smtp_client := Some ((fresh_client (fst ?s2))\<lparr>is_connected := True, logged_in := True\<rparr>)\<rparr>,
              snd ?s2 @ [Io (connect_cmd (fst ?s2)), Io (login_cmd (fst ?s2))]))"
    using assms(4) g by (intro establish_connection_Inr_eq) simp
  show ?thesis using est g tr2 config_determines [OF cf2] s by auto
qed

theorem probe_failure_reauthenticates_witness:
  "smtp_client (fst (snd (get_connection (\<lambda>k. if k = 0 then Some (SMTPServerDisconnected ''Connection lost'') else None)
      (((default_gmail_processor ''me@gmail.com'' ''app-password'')\<lparr>smtp_client := Some \<lparr>hostname = ''smtp.gmail.com'', port = 587, start_tls = True, is_connected = True, logged_in = True\<rparr>\<rparr>), [])))) = Some \<lparr>hostname = ''smtp.gmail.com'', port = 587, start_tls = True, is_connected = True, logged_in = True\<rparr>
   \<and> io_calls (snd (snd (get_connection (\<lambda>k. if k = 0 then Some (SMTPServerDisconnected ''Connection lost'') else None)
      (((default_gmail_processor ''me@gmail.com'' ''app-password'')\<lparr>smtp_client := Some \<lparr>hostname = ''smtp.gmail.com'', port = 587, start_tls = True, is_connected = True, logged_in = True\<rparr>\<rparr>), [])))) =
      [Noop, Connect ''smtp.gmail.com'' 587 True, Login ''me@gmail.com'' ''app-password'']"
  using probe_failure_reauthenticates
    [where s = "(((default_gmail_processor ''me@gmail.com'' ''app-password'')\<lparr>smtp_client := Some \<lparr>hostname = ''smtp.gmail.com'', port = 587, start_tls = True, is_connected = True, logged_in = True\<rparr>\<rparr>), [])" and c = "\<lparr>hostname = ''smtp.gmail.com'', port = 587, start_tls = True, is_connected = True, logged_in = True\<rparr>"
       and env = "\<lambda>k. if k = 0 then Some (SMTPServerDisconnected ''Connection lost'') else None"
       and e = "SMTPServerDisconnected ''Connection lost''" and x = "()"]
  by (simp add: gmail_eval)

text \<open>
  C13: \<open>close_session\<close> keeps the client reference: after a successful close the
  processor still holds a (now unconnected) client, and a second \<open>close_session\<close>
  raises \<open>SMTPServerDisconnected\<close>.  The spec (6, 8) requires close to be safe to call
  twice.
\<close>

theorem close_session_not_idempotent:
  assumes "smtp_client (fst s) = Some c" and "close_session env s = (Inr x, s')"
  shows "(\<exists>c'. smtp_client (fst s') = Some c' \<and> \<not> is_connected c')
         \<and> close_session env s' = (Inl (SMTPServerDisconnected ''Not connected to SMTP server''), s')"
proof -
  have conn: "is_connected c" and env: "env (length (io_calls (snd s))) = None"
    and s': "s' = ((fst s)\<lparr>smtp_client := Some (c\<lparr>is_connected := False, logged_in := False\<rparr>)\<rparr>,
                   snd s @ [Io Quit])"
    using assms
    by (auto simp: close_session_def client_call_def smtp_quit_def smtp_command_def smtp_io_def
        split: if_splits option.splits)
  show ?thesis using s'
    by (simp add: close_session_def client_call_def smtp_quit_def smtp_command_def not_connected_error_def)
qed

theorem close_session_not_idempotent_witness:
  "(\<exists>c'. smtp_client (fst (snd (close_session (\<lambda>_. None) ((default_gmail_processor ''me@gmail.com'' ''app-password'')\<lparr>smtp_client := Some \<lparr>hostname = ''smtp.gmail.com'', port = 587, start_tls = True, is_connected = True, logged_in = True\<rparr>\<rparr>, [])))) = Some c'
          \<and> \<not> is_connected c')
   \<and> close_session (\<lambda>_. None) (snd (close_session (\<lambda>_. None) ((default_gmail_processor ''me@gmail.com'' ''app-password'')\<lparr>smtp_client := Some \<lparr>hostname = ''smtp.gmail.com'', port = 587, start_tls = True, is_connected = True, logged_in = True\<rparr>\<rparr>, []))) =
     (Inl (SMTPServerDisconnected ''Not connected to SMTP server''),
      snd (close_session (\<lambda>_. None) ((default_gmail_processor ''me@gmail.com'' ''app-password'')\<lparr>smtp_client := Some \<lparr>hostname = ''smtp.gmail.com'', port = 587, start_tls = True, is_connected = True, logged_in = True\<rparr>\<rparr>, [])))"
  using close_session_not_idempotent
    [where s = "((default_gmail_processor ''me@gmail.com'' ''app-password'')\<lparr>smtp_client := Some \<lparr>hostname = ''smtp.gmail.com'', port = 587, start_tls = True, is_connected = True, logged_in = True\<rparr>\<rparr>, [])" and c = "\<lparr>hostname = ''smtp.gmail.com'', port = 587, start_tls = True, is_connected = True, logged_in = True\<rparr>" and env = "\<lambda>_. None"
       and x = "()" and s' = "snd (close_session (\<lambda>_. None) ((default_gmail_processor ''me@gmail.com'' ''app-password'')\<lparr>smtp_client := Some \<lparr>hostname = ''smtp.gmail.com'', port = 587, start_tls = True, is_connected = True, logged_in = True\<rparr>\<rparr>, []))"]
  by (simp add: gmail_eval)

lemma send_loop_sleeps:
  "\<exists>j. a \<le> j \<and> j \<le> max a (nat n - 1)
        \<and> sleeps (snd (snd (send_loop env msg n a r s))) = sleeps (snd s) @ map backoff [a..<j]"
proof (induction "nat n - a" arbitrary: a r s)
  case 0
  then have "\<not> int a < n" by simp
  then show ?case by (intro exI [of _ a]) (simp add: send_loop_exit)
next
  case (Suc k)
  show ?case
  proof (cases "int a < n")
    case False
    then show ?thesis by (intro exI [of _ a]) (simp add: send_loop_exit)
  next
    case lt: True
    obtain res s1 where att: "send_attempt env msg s = (res, s1)" by (cases "send_attempt env msg s")
    have sl: "sleeps (snd s1) = sleeps (snd s)" using att by (rule send_attempt_sleeps)
    show ?thesis
    proof (cases res)
      case (Inr x)
      then show ?thesis using lt att sl by (intro exI [of _ a]) (simp add: send_loop_Inr)
    next
      case (Inl e)
      show ?thesis
      proof (cases "is_connectivity_error e \<and> int a < n - 1")
        case True
        let ?s2 = "sleep (backoff a) (reset_connection env s1)"
        have k: "k = nat n - Suc a" using Suc.hyps(2) by simp
        obtain j where j: "Suc a \<le> j" "j \<le> max (Suc a) (nat n - 1)"
          "sleeps (snd (snd (send_loop env msg n (Suc a) r ?s2))) = sleeps (snd ?s2) @ map backoff [Suc a..<j]"
          using Suc.hyps(1) [OF k] by blast
        have "[a..<j] = a # [Suc a..<j]" using j(1) by (simp add: upt_conv_Cons)
        moreover have "j \<le> max a (nat n - 1)" using j(2) True by auto
        ultimately show ?thesis using lt att sl Inl True j
          by (intro exI [of _ j]) (simp add: send_loop_retry)
      next
        case False
        then show ?thesis using lt att sl Inl
          by (intro exI [of _ a], cases "is_connectivity_error e")
             (auto simp: send_loop_retry send_loop_terminal)
      qed
    qed
  qed
qed

lemma send_loop_result_inv:
  "\<not> execute_status r \<Longrightarrow> response_inv (\<lambda>c. c = 200) (fst (send_loop env msg n a r s))"
proof (induction "nat n - a" arbitrary: a r s)
  case 0
  then show ?case by (simp add: send_loop_exit response_inv_def split: option.split)
next
  case (Suc k)
  show ?case
  proof (cases "int a < n")
    case False
    then show ?thesis using Suc.prems by (simp add: send_loop_exit response_inv_def split: option.split)
  next
    case lt: True
    obtain res s1 where att: "send_attempt env msg s = (res, s1)" by (cases "send_attempt env msg s")
    have k: "k = nat n - Suc a" using Suc.hyps(2) by simp
    show ?thesis
    proof (cases res)
      case (Inr x)
      then show ?thesis using lt att by (simp add: send_loop_Inr response_inv_def)
    next
      case (Inl e)
      then show ?thesis using lt att Suc.prems Suc.hyps(1) [OF k]
        by (cases "is_connectivity_error e")
           (simp_all add: send_loop_retry send_loop_terminal response_inv_def)
    qed
  qed
qed

lemma client_inv_config: "config_of p = config_of q \<Longrightarrow> client_inv p c = client_inv q c"
  by (simp add: client_inv_def config_of_def)

text \<open>A command keeps the invariant if its success effect does, on a connected client.\<close>

lemma smtp_command_inv:
  assumes "client_inv p c" "\<And>c. client_inv p c \<Longrightarrow> is_connected c \<Longrightarrow> client_inv p (ok c)"
  shows "client_inv p (fst (snd (smtp_command env cmd ok c tr)))"
  using assms by (auto simp: smtp_command_def smtp_io_def client_inv_def split: option.split)

lemma client_call_inv:
  assumes "gmail_inv (fst s)" "\<And>c tr. client_inv (fst s) c \<Longrightarrow> client_inv (fst s) (fst (snd (f c tr)))"
  shows "gmail_inv (fst (snd (client_call f s)))"
  using assms by (auto simp: client_call_def gmail_inv_def client_inv_def split: option.splits prod.split)
    (metis fst_conv snd_conv)+

lemma reset_connection_inv [simp]: "gmail_inv (fst (reset_connection env s))"
  by (simp add: gmail_inv_def)

lemma establish_connection_inv: "gmail_inv (fst (snd (establish_connection env s)))"
  by (cases s) (simp add: establish_connection_eq gmail_inv_def client_inv_def fresh_client_def
      new_smtp_client_def split: option.split)

lemma noop_call_inv: "gmail_inv (fst s) \<Longrightarrow> gmail_inv (fst (snd (client_call (smtp_noop env) s)))"
  by (rule client_call_inv) (auto simp: smtp_noop_def intro: smtp_command_inv)

lemma get_connection_inv: "gmail_inv (fst s) \<Longrightarrow> gmail_inv (fst (snd (get_connection env s)))"
  using noop_call_inv [of s env] establish_connection_inv
  by (auto simp: get_connection_def split: option.split prod.split sum.split)

lemma send_attempt_inv: "gmail_inv (fst s) \<Longrightarrow> gmail_inv (fst (snd (send_attempt env msg s)))"
proof -
  assume inv: "gmail_inv (fst s)"
  obtain r s1 where g: "get_connection env s = (r, s1)" by (cases "get_connection env s")
  have i1: "gmail_inv (fst s1)" using get_connection_inv [OF inv, of env] g by simp
  have "gmail_inv (fst (snd (client_call (smtp_send_message env msg) s1)))"
    using i1 by (rule client_call_inv) (auto simp: smtp_send_message_def intro: smtp_command_inv)
  then show ?thesis using g i1 by (auto simp: send_attempt_def split: sum.split option.split)
qed

lemma sleep_inv [simp]: "gmail_inv (fst (sleep t s)) = gmail_inv (fst s)"
  by (simp add: sleep_def)

lemma send_loop_inv: "gmail_inv (fst s) \<Longrightarrow> gmail_inv (fst (snd (send_loop env msg n a r s)))"
proof (induction "nat n - a" arbitrary: a r s)
  case 0
  then show ?case by (simp add: send_loop_exit)
next
  case (Suc k)
  show ?case
  proof (cases "int a < n")
    case False
    then show ?thesis using Suc.prems by (simp add: send_loop_exit)
  next
    case lt: True
    obtain res s1 where att: "send_attempt env msg s = (res, s1)" by (cases "send_attempt env msg s")
    have i1: "gmail_inv (fst s1)" using send_attempt_inv [OF Suc.prems, of env msg] att by simp
    have k: "k = nat n - Suc a" using Suc.hyps(2) by simp
    show ?thesis
    proof (cases res)
      case (Inr x)
      then show ?thesis using lt att i1 by (simp add: send_loop_Inr)
    next
      case (Inl e)
      then show ?thesis using lt att i1 Suc.hyps(1) [OF k]
        by (cases "is_connectivity_error e") (simp_all add: send_loop_retry send_loop_terminal)
    qed
  qed
qed

lemma close_session_inv: "gmail_inv (fst s) \<Longrightarrow> gmail_inv (fst (snd (close_session env s)))"
  by (auto simp: close_session_def smtp_quit_def intro!: client_call_inv smtp_command_inv
      split: option.split) (simp add: client_inv_def)

text \<open>
  C12: In every processor state reachable from the constructor by \<open>send\<close> and
  \<open>close_session\<close> calls under any network behaviour, the owned client (if any) was
  built from the processor's host, port and TLS settings, and an authenticated session
  always has an open transport.
\<close>

theorem gmail_reachable_inv: "gmail_reachable s \<Longrightarrow> gmail_inv (fst s)"
proof (induction rule: gmail_reachable.induct)
  case (init addr pw host prt tls)
  then show ?case by (simp add: GmailNotificationProcessor_def gmail_inv_def)
next
  case (send s)
  then show ?case by (simp add: gmail_send_def send_loop_inv)
next
  case (close s)
  then show ?case by (simp add: close_session_inv)
qed

text \<open>
  C14: After \<open>close_session\<close> on a live session, a further \<open>send\<close> does not fail fast:
  on a network that accepts the commands, it finds the closed client, drops it, connects
  and logs in again and delivers the message in its first attempt, with no sleep.  The
  spec (5) says sends after close must fail fast.
\<close>

theorem close_then_send_reconnects:
  assumes "smtp_client (fst s) = Some c" and "is_connected c"
    and "\<forall>k\<ge>length (io_calls (snd s)). env k = None" and "0 < n"
    and "close_session env s = (rc, sc)" and "gmail_send env to_email subject body n sc = (r, s')"
  shows "rc = Inr () \<and> execute_status r
         \<and> io_calls (snd s') = io_calls (snd s) @ [Quit, connect_cmd (fst s), login_cmd (fst s),
              SendMessage (build_message (gmail_address (fst s)) to_email subject body)]
         \<and> sleeps (snd s') = sleeps (snd s)"
proof -
  obtain p tr where s: "s = (p, tr)" by (cases s)
  let ?k = "length (io_calls tr)"
  have e: "env ?k = None" "env (Suc ?k) = None" "env (Suc (Suc ?k)) = None"
    "env (Suc (Suc (Suc ?k))) = None"
    using assms(3) s by auto
  let ?c' = "c\<lparr>is_connected := False, logged_in := False\<rparr>"
  have "close_session env s = (Inr (), (p\<lparr>smtp_client := Some ?c'\<rparr>, tr @ [Io Quit]))"
    using assms(1,2) s e by (simp add: close_session_def client_call_def smtp_quit_def smtp_command_def smtp_io_def)
  then have s1: "rc = Inr ()" "sc = (p\<lparr>smtp_client := Some ?c'\<rparr>, tr @ [Io Quit])" using assms(5) by simp_all
  let ?p1 = "p\<lparr>smtp_client := None\<rparr>"
  have g: "get_connection env sc = establish_connection env (?p1, tr @ [Io Quit])"
    using s1 by (simp add: get_connection_Some noop_call_eq reset_connection_eq not_connected_error_def)
  have "establish_connection env (?p1, tr @ [Io Quit]) =
          (Inr (), (?p1\<lparr>smtp_client := Some ((fresh_client ?p1)\<lparr>is_connected := True, logged_in := True\<rparr>)\<rparr>,
                    tr @ [Io Quit, Io (connect_cmd ?p1), Io (login_cmd ?p1)]))"
    using e by (simp add: establish_connection_eq)
  then have "send_attempt env (build_message (gmail_address p) to_email subject body) sc =
      (Inr (), (?p1\<lparr>smtp_client := Some ((fresh_client ?p1)\<lparr>is_connected := True, logged_in := True\<rparr>)\<rparr>,
                tr @ [Io Quit, Io (connect_cmd ?p1), Io (login_cmd ?p1),
                      Io (SendMessage (build_message (gmail_address p) to_email subject body))]))"
    using g e by (simp add: send_attempt_def client_call_def smtp_send_message_def smtp_command_def smtp_io_def)
  then show ?thesis
    using assms(4,6) s1 s by (auto simp: gmail_send_def send_loop_Inr connect_cmd_def login_cmd_def)
qed

text \<open>
  C15: A half-open session (connected, login not completed, as a rejected login leaves
  it) is used as it is: on a network that accepts the commands, the next \<open>send\<close> probes
  it with NOOP, keeps it, and transmits the message without ever logging in (and with no
  sleep).  The spec
  says \<open>CONNECTING\<close> never persists across calls.
\<close>

theorem half_open_session_used_unauthenticated:
  assumes "smtp_client (fst s) = Some c" and "is_connected c" and "\<not> logged_in c"
    and "\<forall>k\<ge>length (io_calls (snd s)). env k = None" and "0 < n"
    and "gmail_send env to_email subject body n s = (r, s')"
  shows "execute_status r \<and> smtp_client (fst s') = Some c
         \<and> io_calls (snd s') = io_calls (snd s) @
              [Noop, SendMessage (build_message (gmail_address (fst s)) to_email subject body)]
         \<and> sleeps (snd s') = sleeps (snd s)"
proof -
  obtain p tr where s: "s = (p, tr)" by (cases s)
  let ?k = "length (io_calls tr)"
  have e: "env ?k = None" "env (Suc ?k) = None" using assms(4) s by auto
  show ?thesis
    using assms(1,2,5,6) s e
    by (auto simp: gmail_send_def send_loop.simps send_attempt_def get_connection_Some
        client_call_def smtp_send_message_def smtp_command_def smtp_io_def)
qed

theorem close_then_send_reconnects_witness:
  "fst (close_session (\<lambda>_. None) ((default_gmail_processor ''me@gmail.com'' ''app-password'')\<lparr>smtp_client := Some \<lparr>hostname = ''smtp.gmail.com'', port = 587, start_tls = True, is_connected = True, logged_in = True\<rparr>\<rparr>, [])) = Inr ()
   \<and> execute_status (fst (gmail_send (\<lambda>_. None) ''you@example.com'' ''Hi'' ''Body'' 3 (snd (close_session (\<lambda>_. None) ((default_gmail_processor ''me@gmail.com'' ''app-password'')\<lparr>smtp_client := Some \<lparr>hostname = ''smtp.gmail.com'', port = 587, start_tls = True, is_connected = True, logged_in = True\<rparr>\<rparr>, [])))))
   \<and> io_calls (snd (snd (gmail_send (\<lambda>_. None) ''you@example.com'' ''Hi'' ''Body'' 3 (snd (close_session (\<lambda>_. None) ((default_gmail_processor ''me@gmail.com'' ''app-password'')\<lparr>smtp_client := Some \<lparr>hostname = ''smtp.gmail.com'', port = 587, start_tls = True, is_connected = True, logged_in = True\<rparr>\<rparr>, [])))))) =
       [Quit, Connect ''smtp.gmail.com'' 587 True, Login ''me@gmail.com'' ''app-password'', SendMessage \<lparr>msg_from = ''me@gmail.com'', msg_to = ''you@example.com'', msg_subject = ''Hi'', msg_text = ''Body'', msg_subtype = ''plain'', msg_charset = ''utf-8''\<rparr>]
   \<and> sleeps (snd (snd (gmail_send (\<lambda>_. None) ''you@example.com'' ''Hi'' ''Body'' 3 (snd (close_session (\<lambda>_. None) ((default_gmail_processor ''me@gmail.com'' ''app-password'')\<lparr>smtp_client := Some \<lparr>hostname = ''smtp.gmail.com'', port = 587, start_tls = True, is_connected = True, logged_in = True\<rparr>\<rparr>, [])))))) = []"
  using close_then_send_reconnects [where s = "((default_gmail_processor ''me@gmail.com'' ''app-password'')\<lparr>smtp_client := Some \<lparr>hostname = ''smtp.gmail.com'', port = 587, start_tls = True, is_connected = True, logged_in = True\<rparr>\<rparr>, [])" and c = "\<lparr>hostname = ''smtp.gmail.com'', port = 587, start_tls = True, is_connected = True, logged_in = True\<rparr>" and env = "\<lambda>_. None" and n = 3
      and to_email = "''you@example.com''" and subject = "''Hi''" and body = "''Body''"
      and rc = "fst (close_session (\<lambda>_. None) ((default_gmail_processor ''me@gmail.com'' ''app-password'')\<lparr>smtp_client := Some \<lparr>hostname = ''smtp.gmail.com'', port = 587, start_tls = True, is_connected = True, logged_in = True\<rparr>\<rparr>, []))" and sc = "snd (close_session (\<lambda>_. None) ((default_gmail_processor ''me@gmail.com'' ''app-password'')\<lparr>smtp_client := Some \<lparr>hostname = ''smtp.gmail.com'', port = 587, start_tls = True, is_connected = True, logged_in = True\<rparr>\<rparr>, []))"
      and r = "fst (gmail_send (\<lambda>_. None) ''you@example.com'' ''Hi'' ''Body'' 3 (snd (close_session (\<lambda>_. None) ((default_gmail_processor ''me@gmail.com'' ''app-password'')\<lparr>smtp_client := Some \<lparr>hostname = ''smtp.gmail.com'', port = 587, start_tls = True, is_connected = True, logged_in = True\<rparr>\<rparr>, []))))"
      and s' = "snd (gmail_send (\<lambda>_. None) ''you@example.com'' ''Hi'' ''Body'' 3 (snd (close_session (\<lambda>_. None) ((default_gmail_processor ''me@gmail.com'' ''app-password'')\<lparr>smtp_client := Some \<lparr>hostname = ''smtp.gmail.com'', port = 587, start_tls = True, is_connected = True, logged_in = True\<rparr>\<rparr>, []))))"]
  by (simp add: default_gmail_processor_def GmailNotificationProcessor_def connect_cmd_def login_cmd_def
      build_message_def)

theorem half_open_session_used_unauthenticated_witness:
  "execute_status (fst (gmail_send (\<lambda>_. None) ''you@example.com'' ''Hi'' ''Body'' 3 ((default_gmail_processor ''me@gmail.com'' ''app-password'')\<lparr>smtp_client := Some \<lparr>hostname = ''smtp.gmail.com'', port = 587, start_tls = True, is_connected = True, logged_in = False\<rparr>\<rparr>, [])))
   \<and> smtp_client (fst (snd (gmail_send (\<lambda>_. None) ''you@example.com'' ''Hi'' ''Body'' 3 ((default_gmail_processor ''me@gmail.com'' ''app-password'')\<lparr>smtp_client := Some \<lparr>hostname = ''smtp.gmail.com'', port = 587, start_tls = True, is_connected = True, logged_in = False\<rparr>\<rparr>, [])))) = Some \<lparr>hostname = ''smtp.gmail.com'', port = 587, start_tls = True, is_connected = True, logged_in = False\<rparr>
   \<and> io_calls (snd (snd (gmail_send (\<lambda>_. None) ''you@example.com'' ''Hi'' ''Body'' 3 ((default_gmail_processor ''me@gmail.com'' ''app-password'')\<lparr>smtp_client := Some \<lparr>hostname = ''smtp.gmail.com'', port = 587, start_tls = True, is_connected = True, logged_in = False\<rparr>\<rparr>, [])))) = [Noop, SendMessage \<lparr>msg_from = ''me@gmail.com'', msg_to = ''you@example.com'', msg_subject = ''Hi'', msg_text = ''Body'', msg_subtype = ''plain'', msg_charset = ''utf-8''\<rparr>]
   \<and> sleeps (snd (snd (gmail_send (\<lambda>_. None) ''you@example.com'' ''Hi'' ''Body'' 3 ((default_gmail_processor ''me@gmail.com'' ''app-password'')\<lparr>smtp_client := Some \<lparr>hostname = ''smtp.gmail.com'', port = 587, start_tls = True, is_connected = True, logged_in = False\<rparr>\<rparr>, [])))) = []"
  using half_open_session_used_unauthenticated [where s = "((default_gmail_processor ''me@gmail.com'' ''app-password'')\<lparr>smtp_client := Some \<lparr>hostname = ''smtp.gmail.com'', port = 587, start_tls = True, is_connected = True, logged_in = False\<rparr>\<rparr>, [])" and c = "\<lparr>hostname = ''smtp.gmail.com'', port = 587, start_tls = True, is_connected = True, logged_in = False\<rparr>" and env = "\<lambda>_. None" and n = 3
      and to_email = "''you@example.com''" and subject = "''Hi''" and body = "''Body''"
      and r = "fst (gmail_send (\<lambda>_. None) ''you@example.com'' ''Hi'' ''Body'' 3 ((default_gmail_processor ''me@gmail.com'' ''app-password'')\<lparr>smtp_client := Some \<lparr>hostname = ''smtp.gmail.com'', port = 587, start_tls = True, is_connected = True, logged_in = False\<rparr>\<rparr>, []))"
      and s' = "snd (gmail_send (\<lambda>_. None) ''you@example.com'' ''Hi'' ''Body'' 3 ((default_gmail_processor ''me@gmail.com'' ''app-password'')\<lparr>smtp_client := Some \<lparr>hostname = ''smtp.gmail.com'', port = 587, start_tls = True, is_connected = True, logged_in = False\<rparr>\<rparr>, []))"]
  by (simp add: default_gmail_processor_def GmailNotificationProcessor_def build_message_def)

text \<open>
  C8: A rejection-class error (recipient, sender or authentication refused) in the first
  attempt ends \<open>send\<close> at once with status 400; any other error that is not
  connectivity-class ends it at once with status 500.  No reset, no sleep, no retry:
  the state is the one the attempt left.
\<close>

theorem gmail_send_first_attempt_terminal:
  assumes "0 < n"
    and "send_attempt env (build_message (gmail_address (fst s)) to_email subject body) s = (Inl e, s1)"
    and "\<not> is_connectivity_error e"
  shows "gmail_send env to_email subject body n s =
           (BaseResponse\<lparr>status_code := Some (if is_rejection_error e then 400 else 500),
                         details := PyStr (error_str e)\<rparr>, s1)"
  using assms by (simp add: gmail_send_def send_loop_terminal)

theorem gmail_send_first_attempt_terminal_witness:
  "(let live = \<lparr>hostname = ''smtp.gmail.com'', port = 587, start_tls = True, is_connected = True, logged_in = True\<rparr>;
        p = (default_gmail_processor ''me@gmail.com'' ''app-password'')\<lparr>smtp_client := Some live\<rparr>;
        env = (\<lambda>k. if k = 1 then Some (SMTPRecipientsRefused ''550 No such user'') else None)
    in gmail_send env ''you@example.com'' ''Hi'' ''Body'' 3 (p, []) =
       (BaseResponse\<lparr>status_code := Some 400, details := PyStr ''550 No such user''\<rparr>,
        (p, [Io Noop, Io (SendMessage (build_message ''me@gmail.com'' ''you@example.com'' ''Hi'' ''Body''))])))"
  unfolding Let_def
  by (rule gmail_send_first_attempt_terminal [where e = "SMTPRecipientsRefused ''550 No such user''", simplified])
     (simp_all add: gmail_eval)

text \<open>
  C10: If the first attempt (connection check and transmission) succeeds, \<open>send\<close>
  returns status 200 with \<open>execute_status\<close> set and makes no further attempt.
\<close>

theorem gmail_send_first_attempt_success:
  assumes "0 < n"
    and "send_attempt env (build_message (gmail_address (fst s)) to_email subject body) s = (Inr x, s1)"
  shows "gmail_send env to_email subject body n s =
           (BaseResponse\<lparr>status_code := Some 200, details := PyStr ''The message was sent successfully'',
                         execute_status := True\<rparr>, s1)"
  using assms by (simp add: gmail_send_def send_loop_Inr)

theorem gmail_send_first_attempt_success_witness:
  "gmail_send (\<lambda>_. None) ''you@example.com'' ''Hi'' ''Body'' 3 (default_gmail_processor ''me@gmail.com'' ''app-password'', []) =
     (BaseResponse\<lparr>status_code := Some 200, details := PyStr ''The message was sent successfully'',
                   execute_status := True\<rparr>,
      ((default_gmail_processor ''me@gmail.com'' ''app-password'')\<lparr>smtp_client := Some \<lparr>hostname = ''smtp.gmail.com'', port = 587, start_tls = True,
                                      is_connected = True, logged_in = True\<rparr>\<rparr>,
       [Io (Connect ''smtp.gmail.com'' 587 True), Io (Login ''me@gmail.com'' ''app-password''),
        Io (SendMessage (build_message ''me@gmail.com'' ''you@example.com'' ''Hi'' ''Body''))]))"
  by (rule gmail_send_first_attempt_success [where x = "()"]) (simp_all add: gmail_eval)

text \<open>
  C9: When every network command fails with a connectivity-class error (disconnect,
  timeout, connect failure), \<open>send\<close> uses its whole budget: it sleeps
  \<open>1, 2, .., 2^(max_retries-2)\<close> between attempts, returns status 500 with the last
  error's text, and leaves no session behind (the handle is reset).
\<close>

theorem gmail_send_exhausts_on_connectivity:
  assumes "\<forall>k. \<exists>e. env k = Some e \<and> is_connectivity_error e" and "0 < n"
  shows "\<exists>e s'. gmail_send env to_email subject body n s =
            (BaseResponse\<lparr>status_code := Some 500, details := PyStr (error_str e)\<rparr>, s')
          \<and> sleeps (snd s') = sleeps (snd s) @ map backoff [0..<nat n - 1]
          \<and> smtp_client (fst s') = None"
  using send_loop_exhausted [OF assms(1), of 0 n] assms(2) by (simp add: gmail_send_def)

theorem gmail_send_exhausts_on_connectivity_witness:
  "\<exists>e s'. gmail_send (\<lambda>_. Some (SMTPConnectError ''Timed out connecting to smtp.gmail.com''))
              ''you@example.com'' ''Hi'' ''Body'' 3 (default_gmail_processor ''me@gmail.com'' ''app-password'', []) =
            (BaseResponse\<lparr>status_code := Some 500, details := PyStr (error_str e)\<rparr>, s')
          \<and> sleeps (snd s') = [1, 2] \<and> smtp_client (fst s') = None"
  using gmail_send_exhausts_on_connectivity
    [where env = "\<lambda>_. Some (SMTPConnectError ''Timed out connecting to smtp.gmail.com'')" and n = 3
       and s = "(default_gmail_processor ''me@gmail.com'' ''app-password'', [])" and to_email = "''you@example.com''" and subject = "''Hi''" and body = "''Body''"]
  by (simp add: backoff_def upt_rec)

text \<open>
  C17: \<open>send\<close> sleeps \<open>1, 2, 4, ..\<close> in order, at most \<open>max_retries - 1\<close> times: the
  sleeps it adds to the trace are \<open>2^0, .., 2^(j-1)\<close> for some \<open>j < max_retries\<close>.
\<close>

theorem gmail_send_sleep_schedule:
  "\<exists>j. j \<le> nat n - 1
        \<and> sleeps (snd (snd (gmail_send env to_email subject body n s))) = sleeps (snd s) @ map backoff [0..<j]"
  using send_loop_sleeps [of 0 n env _ BaseResponse s] by (simp add: gmail_send_def)

text \<open>
  C20: The result of \<open>send\<close> has \<open>execute_status\<close> set only with the synthesized
  success status 200.
\<close>

theorem gmail_send_result_inv: "response_inv (\<lambda>c. c = 200) (fst (gmail_send env to_email subject body n s))"
  unfolding gmail_send_def by (rule send_loop_result_inv) (simp add: BaseResponse_def)

theorem gmail_send_result_inv_witness:
  "response_inv (\<lambda>c. c = 200) (fst (gmail_send (\<lambda>_. None) ''you@example.com'' ''Hi'' ''Body'' 3 (default_gmail_processor ''me@gmail.com'' ''app-password'', [])))"
  by (rule gmail_send_result_inv)

theorem gmail_reachable_inv_witness:
  "gmail_inv (fst (snd (close_session (\<lambda>_. None)
      (snd (gmail_send (\<lambda>_. None) ''you@example.com'' ''Hi'' ''Body'' 3 (default_gmail_processor ''me@gmail.com'' ''app-password'', []))))))"
  unfolding default_gmail_processor_def
  by (rule gmail_reachable_inv) (intro gmail_reachable.intros)

text \<open>The trace of the loop only grows, and it starts with the trace of its first attempt.\<close>

lemma send_loop_prefix: "\<exists>xs. snd (snd (send_loop env msg n a r s)) = snd s @ xs"
proof (induction "nat n - a" arbitrary: a r s)
  case 0
  then show ?case by (simp add: send_loop_exit)
next
  case (Suc k)
  show ?case
  proof (cases "int a < n")
    case False
    then show ?thesis by (simp add: send_loop_exit)
  next
    case lt: True
    obtain res s1 where att: "send_attempt env msg s = (res, s1)" by (cases "send_attempt env msg s")
    obtain cs where e1: "snd s1 = snd s @ map Io cs"
      using send_attempt_ext [of s env msg] att by (auto simp: io_ext_def)
    obtain ds where e2: "snd (reset_connection env s1) = snd s1 @ map Io ds"
      using reset_connection_ext [of s1 env] by (auto simp: io_ext_def)
    have k: "k = nat n - Suc a" using Suc.hyps(2) by simp
    show ?thesis
    proof (cases res)
      case (Inr x)
      then show ?thesis using lt att e1 by (simp add: send_loop_Inr)
    next
      case (Inl e)
      show ?thesis
      proof (cases "is_connectivity_error e \<and> int a < n - 1")
        case True
        obtain xs where "snd (snd (send_loop env msg n (Suc a) r (sleep (backoff a) (reset_connection env s1))))
                           = snd (sleep (backoff a) (reset_connection env s1)) @ xs"
          using Suc.hyps(1) [OF k] by blast
        then show ?thesis using lt att Inl True e1 e2 by (simp add: send_loop_retry sleep_def)
      next
        case False
        then show ?thesis using lt att Inl e1 e2
          by (cases "is_connectivity_error e") (auto simp: send_loop_retry send_loop_terminal)
      qed
    qed
  qed
qed

lemma send_loop_first_attempt:
  assumes lt: "int a < n" and att: "send_attempt env msg s = (res, s1)"
  shows "\<exists>xs. snd (snd (send_loop env msg n a r s)) = snd s1 @ xs"
proof (cases res)
  case (Inr x)
  then show ?thesis using lt att by (simp add: send_loop_Inr)
next
  case (Inl e)
  obtain ds where e2: "snd (reset_connection env s1) = snd s1 @ map Io ds"
    using reset_connection_ext [of s1 env] by (auto simp: io_ext_def)
  show ?thesis
  proof (cases "is_connectivity_error e \<and> int a < n - 1")
    case True
    obtain xs where "snd (snd (send_loop env msg n (Suc a) r (sleep (backoff a) (reset_connection env s1))))
                       = snd (sleep (backoff a) (reset_connection env s1)) @ xs"
      using send_loop_prefix by blast
    then show ?thesis using lt att Inl True e2 by (simp add: send_loop_retry sleep_def)
  next
    case False
    then show ?thesis using lt att Inl e2
      by (cases "is_connectivity_error e") (auto simp: send_loop_retry send_loop_terminal)
  qed
qed

text \<open>
  A processor without a client opens its session on the first attempt of \<open>send\<close>:
  the first two network commands are \<open>connect\<close> and \<open>login\<close> with the processor's own
  host and credentials.
\<close>

lemma gmail_send_fresh_logs_in:
  assumes "smtp_client p = None" and "env 0 = None" and "0 < n"
  shows "take 2 (io_calls (snd (snd (gmail_send env to_email subject body n (p, []))))) =
         [connect_cmd p, login_cmd p]"
proof -
  let ?msg = "build_message (gmail_address p) to_email subject body"
  obtain res s1 where att: "send_attempt env ?msg (p, []) = (res, s1)"
    by (cases "send_attempt env ?msg (p, [])")
  let ?s0 = "snd (establish_connection env (p, []))"
  have g: "get_connection env (p, []) = establish_connection env (p, [])"
    using assms(1) by (simp add: get_connection_def)
  have tr0: "snd ?s0 = [Io (connect_cmd p), Io (login_cmd p)]"
    using assms(2) by (simp add: establish_connection_eq split: option.split)
  have "io_ext (snd ?s0) (snd s1)"
  proof (cases "fst (establish_connection env (p, []))")
    case (Inl e)
    then show ?thesis using att g
      by (cases "establish_connection env (p, [])") (simp add: send_attempt_def)
  next
    case (Inr x)
    then show ?thesis using att g client_call_command_ext [where env = env and cmd = "SendMessage ?msg" and ok = id and s = ?s0]
      by (cases "establish_connection env (p, [])")
        (auto simp: send_attempt_def smtp_send_message_def split: option.splits)
  qed
  then obtain cs where "snd s1 = [Io (connect_cmd p), Io (login_cmd p)] @ map Io cs"
    using tr0 by (auto simp: io_ext_def)
  moreover obtain xs where "snd (snd (send_loop env ?msg n 0 BaseResponse (p, []))) = snd s1 @ xs"
    using send_loop_first_attempt [of 0 n env ?msg "(p, [])" res s1] assms(3) att by auto
  ultimately show ?thesis by (simp add: gmail_send_def)
qed

lemma auth_inv_fresh [simp]: "auth_inv (p\<lparr>smtp_client := Some (fresh_client q)\<rparr>)"
  by (simp add: auth_inv_def fresh_client_def new_smtp_client_def)

lemma auth_inv_reset [simp]: "auth_inv (fst (reset_connection env s))"
  by (simp add: auth_inv_def)

lemma establish_connection_auth:
  assumes "establish_connection env (p, tr) = (r, s1)"
  shows "auth_inv (fst s1) \<or> (\<exists>e. r = Inl e \<and> \<not> drops_connection e \<and> last (io_calls (snd s1)) = login_cmd p)"
  using assms
  by (auto simp: establish_connection_eq auth_inv_def fresh_client_def new_smtp_client_def
      split: option.splits if_splits)

lemma get_connection_auth:
  assumes "auth_inv (fst s)" and "get_connection env s = (r, s1)"
  shows "auth_inv (fst s1) \<or> (\<exists>e. r = Inl e \<and> \<not> drops_connection e \<and> last (io_calls (snd s1)) = login_cmd (fst s))"
proof (cases s)
  case (Pair p tr)
  show ?thesis
  proof (cases "smtp_client p")
    case None
    then show ?thesis using assms Pair establish_connection_auth [of env p tr r s1]
      by (simp add: get_connection_def)
  next
    case (Some c)
    show ?thesis
    proof (cases "is_connected c \<and> env (length (io_calls tr)) = None")
      case True
      then show ?thesis using assms Pair Some by (auto simp: get_connection_Some)
    next
      case False
      obtain p2 tr2 where r2: "reset_connection env (snd (client_call (smtp_noop env) (p, tr))) = (p2, tr2)"
        by (cases "reset_connection env (snd (client_call (smtp_noop env) (p, tr)))")
      have "login_cmd p2 = login_cmd p"
        using config_determines [of p2 p] r2 reset_connection_config [of env "snd (client_call (smtp_noop env) (p, tr))"]
          client_call_config [of "smtp_noop env" "(p, tr)"] by simp
      then show ?thesis using assms Pair Some False r2 establish_connection_auth [of env p2 tr2 r s1]
        by (simp add: get_connection_Some)
    qed
  qed
qed

text \<open>
  C27: Authentication before use: as long as no session is half open (connected but not
  logged in), a \<open>_get_connection\<close> that returns normally leaves an owned client that is
  connected and authenticated, so \<open>send\<close> transmits only over an authenticated session.
\<close>

theorem get_connection_authenticated:
  assumes "auth_inv (fst s)" and "fst (get_connection env s) = Inr x"
  shows "\<exists>c. smtp_client (fst (snd (get_connection env s))) = Some c \<and> is_connected c \<and> logged_in c"
proof -
  obtain c where c: "smtp_client (fst (snd (get_connection env s))) = Some c" "is_connected c"
    using get_connection_Inr_client [OF assms(2)] by blast
  have "get_connection env s = (Inr x, snd (get_connection env s))"
    using assms(2) by (metis prod.collapse)
  then have "auth_inv (fst (snd (get_connection env s)))"
    using get_connection_auth [OF assms(1)] by blast
  then show ?thesis using c by (simp add: auth_inv_def)
qed

lemma send_attempt_config [simp]: "config_of (fst (snd (send_attempt env msg s))) = config_of (fst s)"
proof -
  obtain r1 s2 where g: "get_connection env s = (r1, s2)" by (cases "get_connection env s")
  have "config_of (fst s2) = config_of (fst s)" using get_connection_config [of env s] g by simp
  then show ?thesis using g client_call_config [of "smtp_send_message env msg" s2]
    by (auto simp: send_attempt_def split: sum.split option.split)
qed

lemma send_message_auth:
  "auth_inv (fst s) \<Longrightarrow> auth_inv (fst (snd (client_call (smtp_send_message env msg) s)))"
  by (auto simp: client_call_def smtp_send_message_def smtp_command_def smtp_io_def auth_inv_def
      split: option.splits prod.splits)

lemma send_attempt_auth:
  assumes "auth_inv (fst s)" and "send_attempt env msg s = (r, s1)"
  shows "auth_inv (fst s1) \<or> (\<exists>e. r = Inl e \<and> \<not> drops_connection e \<and> last (io_calls (snd s1)) = login_cmd (fst s))"
proof -
  obtain r1 s2 where g: "get_connection env s = (r1, s2)" by (cases "get_connection env s")
  note ga = get_connection_auth [OF assms(1) g]
  show ?thesis
  proof (cases r1)
    case (Inl e)
    then show ?thesis using assms(2) g ga by (simp add: send_attempt_def)
  next
    case (Inr x)
    then have "auth_inv (fst s2)" using ga by simp
    then show ?thesis using assms(2) g Inr send_message_auth [of s2 env msg]
      by (auto simp: send_attempt_def split: option.splits)
  qed
qed

lemma sleep_auth [simp]: "auth_inv (fst (sleep t s)) = auth_inv (fst s)"
  by (simp add: sleep_def)

lemma send_loop_half_open:
  assumes "auth_inv (fst s)" and "\<not> auth_inv (fst (snd (send_loop env msg n a r s)))"
  shows "\<exists>e. \<not> is_connectivity_error e \<and> \<not> drops_connection e
             \<and> fst (send_loop env msg n a r s) =
                 r\<lparr>status_code := Some (if is_rejection_error e then 400 else 500), details := PyStr (error_str e)\<rparr>
             \<and> last (io_calls (snd (snd (send_loop env msg n a r s)))) = login_cmd (fst s)"
  using assms
proof (induction "nat n - a" arbitrary: a r s)
  case 0
  then show ?case by (simp add: send_loop_exit)
next
  case (Suc k)
  show ?case
  proof (cases "int a < n")
    case False
    then show ?thesis using Suc.prems by (simp add: send_loop_exit)
  next
    case lt: True
    obtain res s1 where att: "send_attempt env msg s = (res, s1)" by (cases "send_attempt env msg s")
    note sa = send_attempt_auth [OF Suc.prems(1) att]
    have k: "k = nat n - Suc a" using Suc.hyps(2) by simp
    show ?thesis
    proof (cases res)
      case (Inr x)
      then show ?thesis using lt att sa Suc.prems(2) by (simp add: send_loop_Inr)
    next
      case (Inl e)
      show ?thesis
      proof (cases "is_connectivity_error e")
        case False
        then show ?thesis using lt att Inl sa Suc.prems(2) by (auto simp: send_loop_terminal)
      next
        case conn: True
        let ?s2 = "sleep (backoff a) (reset_connection env s1)"
        have cfg: "login_cmd (fst ?s2) = login_cmd (fst s)"
          using config_determines [of "fst ?s2" "fst s"] send_attempt_config [of env msg s] att
          by (simp add: sleep_def)
        show ?thesis
        proof (cases "int a < n - 1")
          case True
          then show ?thesis using lt att Inl conn Suc.prems(2) Suc.hyps(1) [OF k, of ?s2 r] cfg
            by (simp add: send_loop_retry)
        next
          case False
          then show ?thesis using lt att Inl conn Suc.prems(2) by (simp add: send_loop_retry)
        qed
      qed
    qed
  qed
qed

text \<open>
  C28: A half-open session (the spec's \<open>CONNECTING\<close>) survives a \<open>send\<close> only in one
  way: the send failed with a non-connectivity error that does not drop the connection,
  reported as \<open>400\<close> or \<open>500\<close>, and the last network command was the \<open>login\<close> with the
  processor's credentials.
\<close>

theorem gmail_send_half_open_only_after_rejected_login:
  assumes "auth_inv (fst s)" and "gmail_send env to_email subject body n s = (r, s')"
    and "\<not> auth_inv (fst s')"
  shows "\<not> execute_status r \<and> status_code r \<in> {Some 400, Some 500}
         \<and> last (io_calls (snd s')) = login_cmd (fst s)"
proof -
  let ?msg = "build_message (gmail_address (fst s)) to_email subject body"
  have "\<not> auth_inv (fst (snd (send_loop env ?msg n 0 BaseResponse s)))"
    using assms(2,3) by (simp add: gmail_send_def)
  from send_loop_half_open [OF assms(1) this] obtain e where
    "fst (send_loop env ?msg n 0 BaseResponse s) =
       BaseResponse\<lparr>status_code := Some (if is_rejection_error e then 400 else 500), details := PyStr (error_str e)\<rparr>"
    "last (io_calls (snd (snd (send_loop env ?msg n 0 BaseResponse s)))) = login_cmd (fst s)"
    by blast
  then show ?thesis using assms(2) by (auto simp: gmail_send_def BaseResponse_def)
qed

theorem get_connection_authenticated_witness:
  "\<exists>c. smtp_client (fst (snd (get_connection (\<lambda>_. None) (default_gmail_processor ''me@gmail.com'' ''app-password'', []))))
         = Some c \<and> is_connected c \<and> logged_in c"
  using get_connection_authenticated [of "(default_gmail_processor ''me@gmail.com'' ''app-password'', [])" "\<lambda>_. None" "()"]
  by (simp add: gmail_eval auth_inv_def)

theorem gmail_send_half_open_only_after_rejected_login_witness:
  "\<not> execute_status (fst (gmail_send (\<lambda>k. if k = 1 then Some (SMTPAuthenticationError ''Username and Password not accepted'') else None)
        ''you@example.com'' ''Hi'' ''Body'' 3 (default_gmail_processor ''me@gmail.com'' ''app-password'', [])))
   \<and> status_code (fst (gmail_send (\<lambda>k. if k = 1 then Some (SMTPAuthenticationError ''Username and Password not accepted'') else None)
        ''you@example.com'' ''Hi'' ''Body'' 3 (default_gmail_processor ''me@gmail.com'' ''app-password'', []))) \<in> {Some 400, Some 500}
   \<and> last (io_calls (snd (snd (gmail_send (\<lambda>k. if k = 1 then Some (SMTPAuthenticationError ''Username and Password not accepted'') else None)
        ''you@example.com'' ''Hi'' ''Body'' 3 (default_gmail_processor ''me@gmail.com'' ''app-password'', [])))))
     = login_cmd (default_gmail_processor ''me@gmail.com'' ''app-password'')"
  using gmail_send_half_open_only_after_rejected_login
    [of "(default_gmail_processor ''me@gmail.com'' ''app-password'', [])"
        "\<lambda>k. if k = 1 then Some (SMTPAuthenticationError ''Username and Password not accepted'') else None"
        "''you@example.com''" "''Hi''" "''Body''" 3]
  by (simp add: gmail_eval auth_inv_def)

end
