(* ===== verification/Channels.thy ===== *)
theory Channels
  imports Retry Email
begin

text \<open>
  The channel adapters and their common interface: \<open>SMSNotificationProcessor\<close>
  (\<open>processors/sms.py\<close>) and \<open>TelegramNotificationProcessor\<close>
  (\<open>processors/telegram.py\<close>) build a payload and delegate to the retry dispatcher;
  \<open>NotificationInterface\<close> (\<open>core/interface.py\<close>) is the capability set
  \<open>send\<close>/\<open>close_session\<close>, modelled as a datatype of the three processors with one
  dispatching function per operation.
\<close>

section \<open>SMS\<close>

record sms_processor =
  sms_token :: string
  sms_notif_url :: string
  sms_session_pool :: client_session

text \<open>\<open>ClientSession(connector=TCPConnector(**pool_settings.model_dump()))\<close>: an open pool.\<close>

definition new_client_session :: "session_pool \<Rightarrow> client_session" where
  "new_client_session settings = \<lparr>connector = settings, closed = False\<rparr>"

definition SMSNotificationProcessor :: "string \<Rightarrow> session_pool \<Rightarrow> sms_processor" where
  "SMSNotificationProcessor token pool_settings =
     \<lparr>sms_token = token, sms_notif_url = ''https://sms.ru/sms/send'',
      sms_session_pool = new_client_session pool_settings\<rparr>"

definition sms_payload :: "string \<Rightarrow> string \<Rightarrow> string \<Rightarrow> pydict" where
  "sms_payload token text phone_number =
     py_dict [(''api_id'', PyStr token), (''to'', PyStr phone_number), (''msg'', PyStr text),
              (''json'', PyInt 1)]"

definition sms_send ::
  "http_env \<Rightarrow> sms_processor \<Rightarrow> string \<Rightarrow> string \<Rightarrow> int \<Rightarrow> base_response \<times> http_trace" where
  "sms_send env p text phone_number max_retries =
     send_with_retries_mechanism (sms_notif_url p) ''data'' (sms_payload (sms_token p) text phone_number)
       max_retries (sms_session_pool p) env"

text \<open>\<open>await self._session_pool.close()\<close>: aiohttp's \<open>close()\<close> marks the session closed.\<close>

definition close_pool :: "client_session \<Rightarrow> client_session" where
  "close_pool pool = pool\<lparr>closed := True\<rparr>"

definition sms_close_session :: "sms_processor \<Rightarrow> sms_processor" where
  "sms_close_session p = p\<lparr>sms_session_pool := close_pool (sms_session_pool p)\<rparr>"

section \<open>Telegram\<close>

record telegram_processor =
  tg_notif_url :: string
  tg_session_pool :: client_session

definition TelegramNotificationProcessor :: "string \<Rightarrow> session_pool \<Rightarrow> telegram_processor" where
  "TelegramNotificationProcessor token pool_settings =
     \<lparr>tg_notif_url = ''https://api.telegram.org/bot'' @ token @ ''/sendMessage'',
      tg_session_pool = new_client_session pool_settings\<rparr>"

definition telegram_payload :: "string \<Rightarrow> int \<Rightarrow> pydict" where
  "telegram_payload text chat_id = py_dict [(''chat_id'', PyInt chat_id), (''text'', PyStr text)]"

definition telegram_send ::
  "http_env \<Rightarrow> telegram_processor \<Rightarrow> string \<Rightarrow> int \<Rightarrow> int \<Rightarrow> base_response \<times> http_trace" where
  "telegram_send env p text chat_id max_retries =
     send_with_retries_mechanism (tg_notif_url p) ''json'' (telegram_payload text chat_id)
       max_retries (tg_session_pool p) env"

definition telegram_close_session :: "telegram_processor \<Rightarrow> telegram_processor" where
  "telegram_close_session p = p\<lparr>tg_session_pool := close_pool (tg_session_pool p)\<rparr>"

section \<open>The interface\<close>

text \<open>
  One value per implementation of \<open>NotificationInterface\<close>; the Gmail processor carries
  its SMTP trace along, the HTTP processors return theirs per call.  \<open>send\<close> is declared
  as \<open>send(*args, **kwargs)\<close>, so each class's own signature decides: the model covers
  the calls whose arguments have that class's types, and \<open>notify_send\<close> is \<open>None\<close> for
  any other call.  This is outside the model, not an error of the program: Python also
  accepts, for example, an SMS \<open>send\<close> with a Telegram call's three positional
  arguments.  Effects of both transports are collected in one trace, HTTP requests as
  \<open>Inl\<close>, SMTP commands as \<open>Inr\<close>.
\<close>

datatype notification_processor =
    SMSProc sms_processor
  | TelegramProc telegram_processor
  | GmailProc gstate

datatype send_args =
    SmsArgs string string int
  | TelegramArgs string int int
  | EmailArgs string string string int

type_synonym channel_trace = "(pydict + smtp_cmd) effect list"

definition notify_send ::
  "http_env \<Rightarrow> smtp_env \<Rightarrow> notification_processor \<Rightarrow> send_args
   \<Rightarrow> (base_response \<times> notification_processor \<times> channel_trace) option" where
  "notify_send henv senv proc args =
     (case (proc, args) of
        (SMSProc p, SmsArgs text phone n) \<Rightarrow>
          (case sms_send henv p text phone n of (r, tr) \<Rightarrow> Some (r, proc, map (map_effect Inl) tr))
      | (TelegramProc p, TelegramArgs text chat n) \<Rightarrow>
          (case telegram_send henv p text chat n of (r, tr) \<Rightarrow> Some (r, proc, map (map_effect Inl) tr))
      | (GmailProc s, EmailArgs to_email subject text n) \<Rightarrow>
          (case gmail_send senv to_email subject text n s of
             (r, s') \<Rightarrow> Some (r, GmailProc s', map (map_effect Inr) (drop (length (snd s)) (snd s'))))
      | _ \<Rightarrow> None)"

definition notify_close_session ::
  "smtp_env \<Rightarrow> notification_processor \<Rightarrow> (smtp_error + unit) \<times> notification_processor" where
  "notify_close_session senv proc =
     (case proc of
        SMSProc p \<Rightarrow> (Inr (), SMSProc (sms_close_session p))
      | TelegramProc p \<Rightarrow> (Inr (), TelegramProc (telegram_close_session p))
      | GmailProc s \<Rightarrow> (case close_session senv s of (r, s') \<Rightarrow> (r, GmailProc s')))"

section \<open>Properties of the adapters\<close>

lemma sms_request_params:
  "request_params ''https://sms.ru/sms/send'' ''data'' (sms_payload token text phone) =
   [(''url'', PyStr ''https://sms.ru/sms/send''),
    (''data'', PyDict [(''api_id'', PyStr token), (''to'', PyStr phone), (''msg'', PyStr text), (''json'', PyInt 1)])]"
  by (simp add: request_params_def sms_payload_def py_dict_def)

text \<open>
  C21: Every request an SMS send makes goes to \<open>https://sms.ru/sms/send\<close> with the
  form-encoded (\<open>data\<close>) payload \<open>{api_id: token, to: phone, msg: text, json: 1}\<close>,
  in that key order.
\<close>

theorem sms_send_posts_payload:
  "set (io_calls (snd (sms_send env (SMSNotificationProcessor token settings) text phone n))) \<subseteq>
   {[(''url'', PyStr ''https://sms.ru/sms/send''),
     (''data'', PyDict [(''api_id'', PyStr token), (''to'', PyStr phone), (''msg'', PyStr text),
                        (''json'', PyInt 1)])]}"
  unfolding sms_send_def send_with_retries_mechanism_def retry_loop_from_start
  by (simp add: dispatch_spec_io_calls SMSNotificationProcessor_def sms_request_params set_replicate_conv_if)

text \<open>
  C22: Every request a Telegram send makes goes to the bot's \<open>sendMessage\<close> URL, which
  embeds the token, with the JSON payload \<open>{chat_id, text}\<close>.
\<close>

theorem telegram_send_posts_payload:
  "set (io_calls (snd (telegram_send env (TelegramNotificationProcessor token settings) text chat n))) \<subseteq>
   {[(''url'', PyStr (''https://api.telegram.org/bot'' @ token @ ''/sendMessage'')),
     (''json'', PyDict [(''chat_id'', PyInt chat), (''text'', PyStr text)])]}"
  unfolding telegram_send_def send_with_retries_mechanism_def retry_loop_from_start
  by (simp add: dispatch_spec_io_calls TelegramNotificationProcessor_def telegram_payload_def
      request_params_def py_dict_def set_replicate_conv_if)

text \<open>
  C23: After \<open>close_session\<close> an SMS send does not fail fast: every attempt raises
  \<open>Session is closed\<close> (no status, so 500), the whole budget is used with backoff
  \<open>1, .., 2^(max_retries-2)\<close>, and the result is 500.  The spec (5) says sends after
  close must fail fast.
\<close>

theorem sms_send_after_close_fails_slowly:
  assumes "0 < n"
  shows "sms_send env (sms_close_session p) body phone n =
           (BaseResponse\<lparr>status_code := Some 500, details := PyStr ''Session is closed''\<rparr>,
            snd (sms_send env (sms_close_session p) body phone n))
         \<and> length (io_calls (snd (sms_send env (sms_close_session p) body phone n))) = nat n
         \<and> sleeps (snd (sms_send env (sms_close_session p) body phone n)) = map backoff [0..<nat n - 1]"
  using dispatch_spec_all_raised [OF assms,
      of "\<lambda>_ _. Raised None ''Session is closed''" "request_params (sms_notif_url p) ''data'' (sms_payload (sms_token p) body phone)"]
  unfolding sms_send_def send_with_retries_mechanism_def retry_loop_from_start
  by (simp add: sms_close_session_def close_pool_def session_post_def raised_code_def
      is_client_error_def record_outcome_def BaseResponse_def prod_eq_iff)

theorem sms_send_after_close_fails_slowly_witness:
  "sms_send (\<lambda>_ _. Response 200 PyNone) (sms_close_session (\<lparr>sms_token = ''api-token'', sms_notif_url = ''https://sms.ru/sms/send'', sms_session_pool = \<lparr>connector = \<lparr>limit = 100, limit_per_host = 10, keepalive_timeout = 30, ssl = True\<rparr>, closed = False\<rparr>\<rparr>)) ''hello'' ''+70000000000'' 3 =
     (BaseResponse\<lparr>status_code := Some 500, details := PyStr ''Session is closed''\<rparr>,
      snd (sms_send (\<lambda>_ _. Response 200 PyNone) (sms_close_session (\<lparr>sms_token = ''api-token'', sms_notif_url = ''https://sms.ru/sms/send'', sms_session_pool = \<lparr>connector = \<lparr>limit = 100, limit_per_host = 10, keepalive_timeout = 30, ssl = True\<rparr>, closed = False\<rparr>\<rparr>)) ''hello'' ''+70000000000'' 3))
   \<and> length (io_calls (snd (sms_send (\<lambda>_ _. Response 200 PyNone) (sms_close_session (\<lparr>sms_token = ''api-token'', sms_notif_url = ''https://sms.ru/sms/send'', sms_session_pool = \<lparr>connector = \<lparr>limit = 100, limit_per_host = 10, keepalive_timeout = 30, ssl = True\<rparr>, closed = False\<rparr>\<rparr>)) ''hello'' ''+70000000000'' 3))) = 3
   \<and> sleeps (snd (sms_send (\<lambda>_ _. Response 200 PyNone) (sms_close_session (\<lparr>sms_token = ''api-token'', sms_notif_url = ''https://sms.ru/sms/send'', sms_session_pool = \<lparr>connector = \<lparr>limit = 100, limit_per_host = 10, keepalive_timeout = 30, ssl = True\<rparr>, closed = False\<rparr>\<rparr>)) ''hello'' ''+70000000000'' 3)) = [1, 2]"
  using sms_send_after_close_fails_slowly [where n = 3 and env = "\<lambda>_ _. Response 200 PyNone"
      and p = "\<lparr>sms_token = ''api-token'', sms_notif_url = ''https://sms.ru/sms/send'', sms_session_pool = \<lparr>connector = \<lparr>limit = 100, limit_per_host = 10, keepalive_timeout = 30, ssl = True\<rparr>, closed = False\<rparr>\<rparr>" and body = "''hello''" and phone = "''+70000000000''"]
  by (simp add: backoff_def upt_rec)

end
