(* ===== verification/Config.thy ===== *)
theory Config
  imports Schemas
begin

text \<open>
  The environment-sourced defaults of \<open>src/notifications/core/constants.py\<close> and the
  validation that pydantic applies when they build the models of \<open>core/schemas.py\<close>.
  The process environment is a partial map; \<open>os.getenv(key, default)\<close> reads it.
  Pydantic's lax coercion of a string to \<open>int\<close> is modelled for the decimal forms
  (surrounding whitespace, an optional sign, at least one digit); its coercion to
  \<open>bool\<close> accepts the case-insensitive words \<open>1 on t true y yes\<close> and
  \<open>0 off f false n no\<close>.  A failed validation is \<open>Inl\<close> of the failing field names, in
  field order, which is what \<open>ValidationError\<close> reports.  \<open>decimal\<close> prints a natural
  number, so that the theorems can quantify over well-formed settings.
\<close>

section \<open>Environment and coercions\<close>

type_synonym environ = "string \<rightharpoonup> string"

definition getenv :: "environ \<Rightarrow> string \<Rightarrow> string \<Rightarrow> string" where
  "getenv env key dflt = (case env key of Some v \<Rightarrow> v | None \<Rightarrow> dflt)"

definition is_digit :: "char \<Rightarrow> bool" where
  "is_digit c = (48 \<le> (of_char c :: nat) \<and> (of_char c :: nat) \<le> 57)"

definition is_space :: "char \<Rightarrow> bool" where
  "is_space c = (c \<in> set '' \<newline>'' \<or> c = CHR 0x09 \<or> c = CHR 0x0D \<or> c = CHR 0x0B \<or> c = CHR 0x0C)"

definition strip :: "string \<Rightarrow> string" where
  "strip s = rev (dropWhile is_space (rev (dropWhile is_space s)))"

definition digits_val :: "string \<Rightarrow> int" where
  "digits_val s = foldl (\<lambda>acc c. 10 * acc + (int (of_char c) - 48)) 0 s"

definition pyd_int :: "string \<Rightarrow> int option" where
  "pyd_int s =
     (case strip s of
        [] \<Rightarrow> None
      | c # cs \<Rightarrow>
          if c = CHR ''-'' then (if cs \<noteq> [] \<and> list_all is_digit cs then Some (- digits_val cs) else None)
          else if c = CHR ''+'' then (if cs \<noteq> [] \<and> list_all is_digit cs then Some (digits_val cs) else None)
          else if list_all is_digit (c # cs) then Some (digits_val (c # cs)) else None)"

text \<open>The decimal numeral of a natural number (the inverse direction of \<open>pyd_int\<close>).\<close>

fun decimal :: "nat \<Rightarrow> string" where
  "decimal n = (if n < 10 then [char_of (48 + n)] else decimal (n div 10) @ [char_of (48 + n mod 10)])"

definition ascii_lower :: "char \<Rightarrow> char" where
  "ascii_lower c =
     (if 65 \<le> (of_char c :: nat) \<and> (of_char c :: nat) \<le> 90 then char_of (of_char c + (32::nat)) else c)"

definition pyd_bool :: "string \<Rightarrow> bool option" where
  "pyd_bool s =
     (let t = map ascii_lower s
      in if t \<in> set [''1'', ''on'', ''t'', ''true'', ''y'', ''yes''] then Some True
         else if t \<in> set [''0'', ''off'', ''f'', ''false'', ''n'', ''no''] then Some False
         else None)"

section \<open>The models and the module constants\<close>

text \<open>\<open>SessionPool(limit=.., limit_per_host=.., keepalive_timeout=.., ssl=..)\<close> on string arguments.\<close>

definition SessionPool :: "string \<Rightarrow> string \<Rightarrow> string \<Rightarrow> string \<Rightarrow> string list + session_pool" where
  "SessionPool l lph kt tls =
     (case (pyd_int l, pyd_int lph, pyd_int kt, pyd_bool tls) of
        (Some a, Some b, Some c, Some d) \<Rightarrow>
          Inr \<lparr>limit = a, limit_per_host = b, keepalive_timeout = c, ssl = d\<rparr>
      | (a, b, c, d) \<Rightarrow>
          Inl ((if a = None then [''limit''] else []) @ (if b = None then [''limit_per_host''] else [])
               @ (if c = None then [''keepalive_timeout''] else [])
               @ (if d = None then [''ssl''] else [])))"

definition DEFAULT_POOL_SETTNGS :: "environ \<Rightarrow> string list + session_pool" where
  "DEFAULT_POOL_SETTNGS env =
     SessionPool (getenv env ''POOL_LIMIT'' '''') (getenv env ''POOL_LIMIT_PER_HOST'' '''')
       (getenv env ''POOL_KEEPALIVE_TIMEOUT'' '''') (getenv env ''POOL_SSL'' '''')"

definition DEFAULT_GMAIL_NOTIF_ENVIRONMENTS :: "environ \<Rightarrow> gmail_environments" where
  "DEFAULT_GMAIL_NOTIF_ENVIRONMENTS env =
     \<lparr>gmail_address_env = getenv env ''GMAIL_ADDRESS'' '''',
      gmail_app_password_env = getenv env ''GMAIL_APP_PASSWORD'' ''''\<rparr>"

declare decimal.simps [simp del]


section \<open>Parsing and printing\<close>

lemma decimal_ne [simp]: "decimal n \<noteq> []"
  by (induction n rule: decimal.induct) (subst decimal.simps, simp)

lemma of_char_digit: "d < 10 \<Longrightarrow> of_char (char_of (48 + d) :: char) = 48 + (d::nat)"
  by (simp add: of_char_of)

lemma decimal_digits: "list_all is_digit (decimal n)"
proof (induction n rule: decimal.induct)
  case (1 n)
  have d: "is_digit (char_of (48 + d)) " if "d < 10" for d :: nat
    using that by (simp add: is_digit_def)
  show ?case using 1 d [of n] d [of "n mod 10"] by (subst decimal.simps) auto
qed

lemma digits_val_snoc: "digits_val (xs @ [c]) = 10 * digits_val xs + (int (of_char c) - 48)"
  by (simp add: digits_val_def)

lemma digits_val_decimal: "digits_val (decimal n) = int n"
proof (induction n rule: decimal.induct)
  case (1 n)
  show ?case
  proof (cases "n < 10")
    case True
    then show ?thesis by (subst decimal.simps) (simp add: digits_val_def of_char_of)
  next
    case False
    with 1 have ih: "digits_val (decimal (n div 10)) = int (n div 10)" by simp
    have "int n = 10 * int (n div 10) + int (n mod 10)"
      by (metis div_mult_mod_eq mult.commute of_nat_add of_nat_mult of_nat_numeral)
    with False ih show ?thesis
      by (subst decimal.simps) (simp add: digits_val_snoc of_char_of)
  qed
qed

lemma digit_not_space: "is_digit c \<Longrightarrow> \<not> is_space c"
  by (auto simp: is_digit_def is_space_def)

lemma strip_digits: "list_all is_digit xs \<Longrightarrow> strip xs = xs"
proof -
  assume d: "list_all is_digit xs"
  then have "dropWhile is_space xs = xs"
    by (cases xs) (simp_all add: digit_not_space)
  moreover have "list_all is_digit (rev xs)" using d by (simp add: list_all_rev)
  then have "dropWhile is_space (rev xs) = rev xs"
    by (cases "rev xs") (simp_all add: digit_not_space)
  ultimately show ?thesis by (simp add: strip_def)
qed

lemma pyd_int_decimal: "pyd_int (decimal n) = Some (int n)"
proof -
  obtain c cs where dc: "decimal n = c # cs" by (cases "decimal n") simp_all
  have all: "list_all is_digit (c # cs)" using decimal_digits [of n] dc by simp
  then have "c \<noteq> CHR ''-''" "c \<noteq> CHR ''+''" by (auto simp: is_digit_def)
  then show ?thesis
    using all strip_digits [OF all] digits_val_decimal [of n] dc by (simp add: pyd_int_def)
qed

lemma pyd_int_empty [simp]: "pyd_int '''' = None"
  by (simp add: pyd_int_def strip_def)

lemma pyd_bool_empty [simp]: "pyd_bool '''' = None"
  by (simp add: pyd_bool_def)

lemma pyd_bool_words: "pyd_bool ''true'' = Some True" "pyd_bool ''false'' = Some False"
  by (simp_all add: pyd_bool_def ascii_lower_def)

section \<open>Properties of the defaults\<close>

text \<open>
  C24: With none of the \<open>POOL_*\<close> variables set, building \<open>DEFAULT_POOL_SETTNGS\<close>
  fails validation on all four fields: the fallback \<open>""\<close> is neither an \<open>int\<close> nor a
  \<open>bool\<close>, so importing \<open>constants.py\<close> (and with it every processor module) raises.
\<close>

theorem default_pool_settings_unset_fails:
  assumes "env ''POOL_LIMIT'' = None" and "env ''POOL_LIMIT_PER_HOST'' = None"
    and "env ''POOL_KEEPALIVE_TIMEOUT'' = None" and "env ''POOL_SSL'' = None"
  shows "DEFAULT_POOL_SETTNGS env = Inl [''limit'', ''limit_per_host'', ''keepalive_timeout'', ''ssl'']"
  using assms by (simp add: DEFAULT_POOL_SETTNGS_def SessionPool_def getenv_def)

theorem default_pool_settings_unset_fails_witness:
  "DEFAULT_POOL_SETTNGS Map.empty = Inl [''limit'', ''limit_per_host'', ''keepalive_timeout'', ''ssl'']"
  using default_pool_settings_unset_fails [of Map.empty] by simp

text \<open>
  C25: Settings written as decimal numerals and a boolean word are read back exactly:
  \<open>DEFAULT_POOL_SETTNGS\<close> on such an environment is the pool with those values.
\<close>

theorem default_pool_settings_roundtrip:
  "DEFAULT_POOL_SETTNGS [''POOL_LIMIT'' \<mapsto> decimal a, ''POOL_LIMIT_PER_HOST'' \<mapsto> decimal b,
                         ''POOL_KEEPALIVE_TIMEOUT'' \<mapsto> decimal c,
                         ''POOL_SSL'' \<mapsto> (if tls then ''true'' else ''false'')] =
   Inr \<lparr>limit = int a, limit_per_host = int b, keepalive_timeout = int c, ssl = tls\<rparr>"
  by (simp add: DEFAULT_POOL_SETTNGS_def SessionPool_def getenv_def pyd_int_decimal pyd_bool_words)

end
