(* ===== verification/Spec2Isabelle.thy ===== *)
theory Spec2Isabelle
  imports Channels Config
begin

text \<open>
  \<^bold>\<open>A verification library for the notification service.\<close>

  \<^bold>\<open>The program.\<close>  \<open>src/notifications\<close> sends notifications over two kinds of
  transport.  Stateless channels (SMS in \<open>processors/sms.py\<close>, Telegram in
  \<open>processors/telegram.py\<close>) build a payload and call the retry dispatcher
  \<open>send_with_retries_mechanism\<close> of \<open>core/utils.py\<close>, which posts through a shared
  aiohttp \<open>ClientSession\<close> with exponential backoff.  The stateful channel
  (\<open>processors/email.py\<close>, \<open>GmailNotificationProcessor\<close>) owns one aiosmtplib session
  that it creates lazily, probes with NOOP, resets on connectivity errors and reuses
  across calls; its \<open>send\<close> has its own retry loop.  Every path returns a
  \<open>BaseResponse\<close> (\<open>core/schemas.py\<close>).  \<open>core/interface.py\<close> declares the common
  \<open>send\<close>/\<open>close_session\<close> interface, \<open>core/constants.py\<close> reads defaults from the
  environment.

  \<^bold>\<open>Theories.\<close>
  \<^item> \<open>Prelude\<close>: Python values (\<open>pyval\<close>, dictionaries as association lists with
    Python's key order), traces of effects (\<open>Io\<close> network command, \<open>Sleep\<close>),
    \<open>backoff i = 2 ^ i\<close>, and the shared lemmas on traces, backoff sums and list
    comprehensions (collection \<open>effect_simps\<close>).
  \<^item> \<open>Schemas\<close>: \<open>BaseResponse\<close>, \<open>SessionPool\<close>, \<open>GmailEnvironments\<close> as records;
    the outcome invariant \<open>response_inv\<close>.
  \<^item> \<open>Retry\<close>: \<open>send_with_retries_mechanism\<close>.  The loop \<open>for attempt in
    range(max_retries)\<close> is \<open>retry_loop\<close>, with the result object and the trace threaded
    through; \<open>max_retries\<close> is a Python \<open>int\<close> (negative budgets make no attempt).
    The network is the oracle \<open>http_env\<close> (request parameters and attempt index to a
    response or a raised exception with optional \<open>status\<close>); \<open>session_post\<close> adds the
    one library behaviour relied on: a closed session raises without status.
    \<open>dispatch_spec\<close> is a loop-free closed form of the code (attempts up to the first
    final outcome, the result is the last outcome, the sleeps are fixed per attempt); it
    keeps the code's departures from the spec's section 4.1, and
    \<open>dispatch_refines_spec\<close> proves the loop equal to it; the other dispatcher
    properties (short-circuit on success, stop on 4xx responses, the backoff schedules,
    the bound on attempts, the outcome invariant) are corollaries of it.
  \<^item> \<open>SmtpClient\<close>: the assumed behaviour of aiosmtplib (not repository code): a client
    record (parameters, open transport, ghost authentication flag), the exception classes
    that \<open>email.py\<close> distinguishes, and one oracle \<open>smtp_env\<close> answering the \<open>k\<close>-th
    network command; commands on an unconnected client raise locally.
  \<^item> \<open>Email\<close>: \<open>GmailNotificationProcessor\<close>.  State is the record
    \<open>gmail_processor\<close> plus the trace; \<open>get_connection\<close>, \<open>reset_connection\<close>,
    \<open>establish_connection\<close>, \<open>close_session\<close>, \<open>send_attempt\<close> (the \<open>try\<close> body),
    \<open>send_loop\<close> and \<open>gmail_send\<close> are the methods, each with its guards and early
    returns.  Lemma groups: traces grow only by network commands inside an attempt
    (\<open>io_ext\<close>); exact equations for establishing a connection and for the probe;
    unfolding lemmas of the loop (success, terminal error, retry); the loop under a network
    that always fails; sleep schedule and result invariant of the loop; preservation of
    the well-formedness invariant \<open>gmail_inv\<close> by every operation and hence on all
    states \<open>gmail_reachable\<close> from the constructor; the spec's rule that
    \<open>CONNECTING\<close> never persists, as \<open>auth_inv\<close> (an open transport is logged in):
    under it a connection handed to \<open>send_message\<close> is authenticated, and a send breaks
    it only by a failed login that keeps the transport open; what a send does after
    \<open>close_session\<close> and on a half-open session, for any processor state.
  \<^item> \<open>Channels\<close>: the HTTP adapters of \<open>processors/sms.py\<close> and
    \<open>processors/telegram.py\<close> (constructor, payload dictionary, delegation to the
    dispatcher with the form marker \<open>data\<close> or \<open>json\<close>, \<open>close_session\<close> closing the
    pool) and \<open>core/interface.py\<close> as the datatype \<open>notification_processor\<close> of the three
    implementations, with \<open>notify_send\<close>/\<open>notify_close_session\<close> dispatching on it
    (calls whose arguments have another class's types are outside the model and give
    \<open>None\<close>).  Lemmas: each adapter posts exactly its payload to its URL, and a send
    after \<open>close_session\<close> spends the whole budget.  The interface itself adds no
    behaviour of its own, so its properties are those of the three processors.
  \<^item> \<open>Config\<close>: \<open>core/constants.py\<close>.  The process environment is a partial map;
    \<open>SessionPool\<close> validates its string inputs with pydantic's coercions (decimal
    integers, boolean words) and reports the failing fields; \<open>DEFAULT_POOL_SETTNGS\<close> and
    \<open>DEFAULT_GMAIL_NOTIF_ENVIRONMENTS\<close> are functions of the environment.  Lemmas: the
    empty fallback fails on every pool field, and printed settings are read back exactly
    (\<open>pyd_int (decimal n) = Some n\<close>).
  \<^item> This theory: the property that spans components, the Gmail processor that the
    environment defaults build when the credentials are unset.

  \<^bold>\<open>Termination and bounds.\<close>  Both retry loops are \<^theory_text>\<open>function\<close>s whose
  termination is proved with the measure \<open>nat (max_retries - attempt)\<close>, so no fuel is
  needed and every theorem is about the total function.  \<open>decimal\<close> terminates by
  \<open>n div 10 < n\<close>.  The networks are arbitrary oracles, so every property holds for every
  server behaviour; hypotheses on the network restrict only the answers that the
  theorem's statement depends on.

  \<^bold>\<open>Findings\<close> (each proved as a theorem): the dispatcher sleeps after the last
  attempt on server-error responses; it retries exceptions carrying a 4xx status without
  backoff instead of stopping; \<open>close_session\<close> of the SMTP processor is not idempotent
  and a send after it silently reconnects; a failed login leaves a connected but
  unauthenticated session that the next send uses without logging in; an SMS or Telegram
  send after \<open>close_session\<close> fails only after the whole retry budget and its sleeps;
  when the \<open>POOL_*\<close> variables are unset the pool defaults do not validate, so no
  processor module can be imported; unset Gmail credentials are only noticed by the SMTP server.

  \<^bold>\<open>Not modelled.\<close>  The libraries themselves (aiohttp, aiosmtplib, email.mime,
  pydantic, dotenv) beyond the behaviour stated in \<open>Retry\<close>, \<open>SmtpClient\<close> and
  \<open>Config\<close>: pydantic's integer coercion is modelled for decimal numerals only, and
  \<open>load_dotenv\<close> is not modelled (the environment is an input).  Real time (a sleep is
  an event with its duration) and concurrency between sends on one processor, which the
  spec leaves to the caller, are not modelled either.  Planned next: an abstract
  connection state machine of the spec (disconnected, connecting, authenticated, closed)
  with a simulation relation to \<open>gmail_processor\<close>, and the collision of the form
  marker \<open>url\<close> with the URL key of the request dictionary.
\<close>

text \<open>
  C26: Missing credentials are not rejected when the SMTP processor is built from the
  environment defaults: with \<open>GMAIL_ADDRESS\<close> and \<open>GMAIL_APP_PASSWORD\<close> unset, the first
  \<open>send\<close> of the default processor connects to \<open>smtp.gmail.com:587\<close> and logs in with the
  empty address and the empty password.
\<close>

theorem default_gmail_processor_empty_login:
  assumes "env ''GMAIL_ADDRESS'' = None" and "env ''GMAIL_APP_PASSWORD'' = None"
    and "senv 0 = None" and "0 < n"
  shows "take 2 (io_calls (snd (snd (gmail_send senv to_email subject body n
           (default_gmail_processor (gmail_address_env (DEFAULT_GMAIL_NOTIF_ENVIRONMENTS env))
              (gmail_app_password_env (DEFAULT_GMAIL_NOTIF_ENVIRONMENTS env)), []))))) =
         [Connect ''smtp.gmail.com'' 587 True, Login '''' '''']"
  using gmail_send_fresh_logs_in [where p = "default_gmail_processor '''' ''''" and env = senv and n = n]
    assms
  by (simp add: DEFAULT_GMAIL_NOTIF_ENVIRONMENTS_def getenv_def default_gmail_processor_def
      GmailNotificationProcessor_def connect_cmd_def login_cmd_def)

theorem default_gmail_processor_empty_login_witness:
  "take 2 (io_calls (snd (snd (gmail_send (\<lambda>_. None) ''you@example.com'' ''Hi'' ''Body'' 3
      (default_gmail_processor (gmail_address_env (DEFAULT_GMAIL_NOTIF_ENVIRONMENTS Map.empty))
         (gmail_app_password_env (DEFAULT_GMAIL_NOTIF_ENVIRONMENTS Map.empty)), []))))) =
   [Connect ''smtp.gmail.com'' 587 True, Login '''' '''']"
  using default_gmail_processor_empty_login [where env = Map.empty and senv = "\<lambda>_. None" and n = 3]
  by simp

end
